theory Spec2Isabelle
  imports Complex_Main
begin

section \<open>JavaScript values used by the worker\<close>

text \<open>
  A JavaScript string is a sequence of UTF-16 code units. The model takes a code unit
  as an integer (from 0 to 65535 in a string of the program; the functions below are
  defined on every integer) and a string as a list of them. \<open>lit\<close> turns a literal of
  the source, which is ASCII, into such a string, and \<open>ch\<close> a character of the source
  into its code unit.
\<close>

type_synonym jstring = "int list"

definition ch :: "char \<Rightarrow> int" where
  "ch c = of_char c"

definition lit :: "string \<Rightarrow> jstring" where
  "lit s = map ch s"

text \<open>
  A JavaScript number is an IEEE 754 binary64 value. The model keeps the three
  non-finite values apart and carries a finite value as the rational it denotes;
  \<open>-0\<close> and \<open>+0\<close> are one value \<open>Fin 0\<close> (the worker only compares, truncates and
  prints numbers, and all three treat the two zeros alike).
\<close>

datatype number = NaN | PosInf | NegInf | Fin rat

text \<open>
  The values that reach \<open>parseTime\<close> and \<open>clampLimit\<close>: \<open>null\<close> or a string from
  \<open>URLSearchParams.get\<close>, and a number when the result of one call is fed to another.
\<close>

datatype jsval = Null | Str jstring | Num number

definition isFinite :: "number \<Rightarrow> bool" where
  "isFinite n = (case n of Fin q \<Rightarrow> True | _ \<Rightarrow> False)"

text \<open>The relational operators \<open><\<close> and \<open><=\<close> on numbers: false as soon as one side is NaN.\<close>

fun js_lt :: "number \<Rightarrow> number \<Rightarrow> bool" where
  "js_lt NaN y = False"
| "js_lt x NaN = False"
| "js_lt PosInf y = False"
| "js_lt x NegInf = False"
| "js_lt NegInf y = True"
| "js_lt x PosInf = True"
| "js_lt (Fin a) (Fin b) = (a < b)"

definition js_le :: "number \<Rightarrow> number \<Rightarrow> bool" where
  "js_le x y = (x \<noteq> NaN \<and> y \<noteq> NaN \<and> \<not> js_lt y x)"

definition js_gt :: "number \<Rightarrow> number \<Rightarrow> bool" where
  "js_gt x y = js_lt y x"

definition trunc :: "rat \<Rightarrow> int" where
  "trunc q = (if 0 \<le> q then \<lfloor>q\<rfloor> else \<lceil>q\<rceil>)"

definition Math_trunc :: "number \<Rightarrow> number" where
  "Math_trunc n = (case n of Fin q \<Rightarrow> Fin (of_int (trunc q)) | _ \<Rightarrow> n)"

definition Math_min :: "number \<Rightarrow> number \<Rightarrow> number" where
  "Math_min x y = (if x = NaN \<or> y = NaN then NaN else if js_lt y x then y else x)"

subsection \<open>Rounding a rational to binary64\<close>

definition pow2 :: "int \<Rightarrow> rat" where
  "pow2 e = (if 0 \<le> e then 2 ^ nat e else 1 / 2 ^ nat (- e))"

definition pow10 :: "int \<Rightarrow> rat" where
  "pow10 e = (if 0 \<le> e then 10 ^ nat e else 1 / 10 ^ nat (- e))"

text \<open>The number of binary digits of a positive integer.\<close>

function bit_length :: "int \<Rightarrow> int" where
  "bit_length n = (if n \<le> 0 then 0 else 1 + bit_length (n div 2))"
  by pat_completeness auto
termination
  by (relation "measure nat") auto

declare bit_length.simps [simp del]

text \<open>
  The binary exponent of a positive rational, the \<open>e\<close> with \<open>2^e \<le> q < 2^(e+1)\<close>:
  from the bit length of the integer part when \<open>1 \<le> q\<close>, and of the reciprocal
  rounded up otherwise.
\<close>

definition ilog2 :: "rat \<Rightarrow> int" where
  "ilog2 q =
     (if 1 \<le> q then bit_length \<lfloor>q\<rfloor> - 1
      else - bit_length (\<lceil>1 / q\<rceil> - 1))"

definition round_half_even :: "rat \<Rightarrow> int" where
  "round_half_even x =
     (let m = \<lfloor>x\<rfloor>; f = x - of_int m
      in if f < 1 / 2 then m
         else if 1 / 2 < f then m + 1
         else if even m then m else m + 1)"

text \<open>
  Round to nearest, ties to even, with 53 bits of precision and gradual underflow
  below \<open>2^-1022\<close>. The significand \<open>m\<close> is at most \<open>2^53\<close>, so the rounded
  value reaches \<open>2^1024\<close>, and overflows to infinity, exactly when the exponent is
  1024 or more, or is 1023 with the significand rounded up to \<open>2^53\<close>.
\<close>

definition to_binary64 :: "rat \<Rightarrow> number" where
  "to_binary64 q =
     (if q = 0 then Fin 0
      else
        let a = \<bar>q\<bar>;
            e = max (ilog2 a) (- 1022);
            m = round_half_even (a / pow2 (e - 52))
        in if 1024 \<le> e \<or> (e = 1023 \<and> m = 2 ^ 53)
           then (if 0 < q then PosInf else NegInf)
           else Fin ((if 0 < q then 1 else - 1) * of_int m * pow2 (e - 52)))"

subsection \<open>\<open>Number(value)\<close>: the conversion of a string to a number\<close>

text \<open>
  The conversion follows the grammar of the language for numeric strings: white space
  and line terminators are stripped at both ends, the empty rest is 0, and the rest is
  otherwise a decimal literal with an optional sign, \<open>Infinity\<close> with an optional sign,
  or an unsigned binary, octal or hexadecimal literal; any other string is NaN. The
  value of the literal is rounded to binary64 (exactly, also for a literal of more than
  twenty significant digits, as the engine of the platform does).

  The stripped characters are the code units TAB, LF, VT, FF, CR and U+FEFF, the line
  and paragraph separators U+2028 and U+2029, and the space separators of Unicode:
  U+0020, U+00A0, U+1680, U+2000 to U+200A, U+202F, U+205F and U+3000.
\<close>

definition is_ws :: "int \<Rightarrow> bool" where
  "is_ws c =
     ((0x09 \<le> c \<and> c \<le> 0x0D) \<or> c = 0x20 \<or> c = 0xA0 \<or> c = 0x1680
      \<or> (0x2000 \<le> c \<and> c \<le> 0x200A) \<or> c = 0x2028 \<or> c = 0x2029 \<or> c = 0x202F
      \<or> c = 0x205F \<or> c = 0x3000 \<or> c = 0xFEFF)"

definition trim :: "jstring \<Rightarrow> jstring" where
  "trim s = rev (dropWhile is_ws (rev (dropWhile is_ws s)))"

definition is_digit :: "int \<Rightarrow> bool" where
  "is_digit c = (48 \<le> c \<and> c \<le> 57)"

text \<open>The value of a code unit as a digit of the radix: \<open>0-9\<close>, \<open>a-f\<close>, \<open>A-F\<close>.\<close>

definition digit_of :: "int \<Rightarrow> int \<Rightarrow> int option" where
  "digit_of radix c =
     (let v = (if 48 \<le> c \<and> c \<le> 57 then c - 48
               else if 97 \<le> c \<and> c \<le> 102 then c - 87
               else if 65 \<le> c \<and> c \<le> 70 then c - 55
               else radix)
      in if v < radix then Some v else None)"

fun digits_in :: "int \<Rightarrow> int \<Rightarrow> jstring \<Rightarrow> int option" where
  "digits_in radix acc [] = Some acc"
| "digits_in radix acc (c # cs) =
     (case digit_of radix c of
        None \<Rightarrow> None
      | Some v \<Rightarrow> digits_in radix (radix * acc + v) cs)"

text \<open>A non-empty run of digits of the radix, and nothing else.\<close>

definition numeral_in :: "int \<Rightarrow> jstring \<Rightarrow> int option" where
  "numeral_in radix s = (if s = [] then None else digits_in radix 0 s)"

text \<open>\<open>0x\<close>, \<open>0o\<close> and \<open>0b\<close> literals (either case of the letter, no sign).\<close>

definition non_decimal :: "jstring \<Rightarrow> int option" where
  "non_decimal s =
     (case s of
        c0 # c1 # ds \<Rightarrow>
          if c0 \<noteq> ch CHR ''0'' then None
          else if c1 = ch CHR ''x'' \<or> c1 = ch CHR ''X'' then numeral_in 16 ds
          else if c1 = ch CHR ''o'' \<or> c1 = ch CHR ''O'' then numeral_in 8 ds
          else if c1 = ch CHR ''b'' \<or> c1 = ch CHR ''B'' then numeral_in 2 ds
          else None
      | _ \<Rightarrow> None)"

text \<open>The exponent part of a decimal literal: absent, or \<open>e\<close>/\<open>E\<close>, a sign, digits.\<close>

definition exponent_part :: "jstring \<Rightarrow> int option" where
  "exponent_part s =
     (case s of
        [] \<Rightarrow> Some 0
      | c # r \<Rightarrow>
          if c \<noteq> ch CHR ''e'' \<and> c \<noteq> ch CHR ''E'' then None
          else (case r of
                  [] \<Rightarrow> None
                | d # ds \<Rightarrow>
                    if d = ch CHR ''+'' then numeral_in 10 ds
                    else if d = ch CHR ''-'' then map_option uminus (numeral_in 10 ds)
                    else numeral_in 10 r))"

text \<open>An unsigned decimal literal: \<open>Infinity\<close>, or digits with an optional fraction and exponent.\<close>

definition unsigned_decimal :: "jstring \<Rightarrow> number" where
  "unsigned_decimal u =
     (if u = lit ''Infinity'' then PosInf
      else
        let ip = takeWhile is_digit u;
            r1 = dropWhile is_digit u;
            fp = (case r1 of [] \<Rightarrow> [] | c # r \<Rightarrow> if c = ch CHR ''.'' then takeWhile is_digit r else []);
            r2 = (case r1 of [] \<Rightarrow> [] | c # r \<Rightarrow> if c = ch CHR ''.'' then dropWhile is_digit r else r1)
        in if ip = [] \<and> fp = [] then NaN
           else (case (digits_in 10 0 (ip @ fp), exponent_part r2) of
                   (Some m, Some ex) \<Rightarrow> to_binary64 (of_int m * pow10 (ex - int (length fp)))
                 | _ \<Rightarrow> NaN))"

definition negate :: "number \<Rightarrow> number" where
  "negate n = (case n of NaN \<Rightarrow> NaN | PosInf \<Rightarrow> NegInf | NegInf \<Rightarrow> PosInf | Fin q \<Rightarrow> Fin (- q))"

definition StringToNumber :: "jstring \<Rightarrow> number" where
  "StringToNumber s =
     (let t = trim s
      in case t of
           [] \<Rightarrow> Fin 0
         | c # u \<Rightarrow>
             (case non_decimal t of
                Some n \<Rightarrow> to_binary64 (of_int n)
              | None \<Rightarrow>
                  if c = ch CHR ''+'' then unsigned_decimal u
                  else if c = ch CHR ''-'' then negate (unsigned_decimal u)
                  else unsigned_decimal t))"

fun Number :: "jsval \<Rightarrow> number" where
  "Number Null = Fin 0"
| "Number (Str s) = StringToNumber s"
| "Number (Num n) = n"

text \<open>\<open>!value\<close>: null, the empty string, zero and NaN are falsy.\<close>

fun falsy :: "jsval \<Rightarrow> bool" where
  "falsy Null = True"
| "falsy (Str s) = (s = [])"
| "falsy (Num n) = (n = NaN \<or> n = Fin 0)"

section \<open>The worker's constants and helpers\<close>

definition DEFAULT_SYMBOL :: jstring where "DEFAULT_SYMBOL = lit ''BTCUSDT''"
definition DEFAULT_INTERVAL :: jstring where "DEFAULT_INTERVAL = lit ''1m''"
definition DEFAULT_LIMIT :: number where "DEFAULT_LIMIT = Fin 100"
definition MAX_LIMIT :: number where "MAX_LIMIT = Fin 1000"

definition ALLOWED_INTERVALS :: "jstring list" where
  "ALLOWED_INTERVALS =
     map lit
       [''1s'',
        ''1m'', ''3m'', ''5m'', ''15m'', ''30m'',
        ''1h'', ''2h'', ''4h'', ''6h'', ''8h'', ''12h'',
        ''1d'', ''3d'', ''1w'', ''1M'']"

text \<open>\<open>parseTime\<close>: \<open>None\<close> is the \<open>null\<close> the function returns.\<close>

definition parseTime :: "jsval \<Rightarrow> number option" where
  "parseTime v =
     (if falsy v then None
      else
        let parsed = Number v
        in if \<not> isFinite parsed \<or> js_lt parsed (Fin 0) then None
           else Some (Math_trunc parsed))"

definition clampLimit :: "jsval \<Rightarrow> number" where
  "clampLimit rawLimit =
     (let parsed = Number rawLimit
      in if \<not> isFinite parsed \<or> js_le parsed (Fin 0) then DEFAULT_LIMIT
         else Math_min (Math_trunc parsed) MAX_LIMIT)"

text \<open>
  \<open>safeParseJSON\<close>. \<open>JSON.parse\<close> belongs to the platform and is a parameter: \<open>None\<close>
  stands for the exception it throws on text that is not JSON.
\<close>

datatype json =
    JNull
  | JBool bool
  | JNum number
  | JStr jstring
  | JArr "json list"
  | JObj "(jstring \<times> json) list"

definition safeParseJSON :: "(jstring \<Rightarrow> json option) \<Rightarrow> jstring \<Rightarrow> json" where
  "safeParseJSON JSON_parse text =
     (case JSON_parse text of
        Some v \<Rightarrow> v
      | None \<Rightarrow> JObj [(lit ''raw'', JStr text)])"

text \<open>
  A response: the status, the headers, and the body. The body of \<open>jsonResponse\<close> is
  \<open>JSON.stringify(payload)\<close>; the model keeps the payload itself. \<open>None\<close> is the
  \<open>null\<close> body of the 204 response.
\<close>

record response =
  status :: nat
  headers :: "(string \<times> string) list"
  body :: "json option"

definition corsHeaders :: "(string \<times> string) list" where
  "corsHeaders =
     [(''Access-Control-Allow-Origin'', ''*''),
      (''Access-Control-Allow-Methods'', ''GET,OPTIONS''),
      (''Access-Control-Allow-Headers'', ''Content-Type'')]"

definition jsonResponse :: "json \<Rightarrow> nat \<Rightarrow> response" where
  "jsonResponse payload st =
     \<lparr>status = st,
      headers = (''Content-Type'', ''application/json; charset=utf-8'') # corsHeaders,
      body = Some payload\<rparr>"

section \<open>The request, the platform and the outbound call\<close>

text \<open>
  The inbound request as the handler reads it: \<open>request.method\<close>, and the path and
  the query pairs of \<open>new URL(request.url)\<close> (the platform hands the handler an
  absolute URL, so the constructor does not throw). \<open>searchParams.get(name)\<close> is the
  value of the first pair with that name, or \<open>null\<close>.
\<close>

record request =
  http_method :: jstring
  pathname :: jstring
  searchParams :: "(jstring \<times> jstring) list"

definition get_param :: "request \<Rightarrow> string \<Rightarrow> jstring option" where
  "get_param req name = map_of (searchParams req) (lit name)"

definition param :: "jstring option \<Rightarrow> jsval" where
  "param p = (case p of None \<Rightarrow> Null | Some s \<Rightarrow> Str s)"

text \<open>\<open>value || fallback\<close> on a string or null: the fallback replaces null and the empty string.\<close>

definition or_default :: "jstring option \<Rightarrow> jstring \<Rightarrow> jstring" where
  "or_default p d = (case p of None \<Rightarrow> d | Some s \<Rightarrow> if s = [] then d else s)"

text \<open>The test of \<open>/^[A-Z0-9]{5,20}$/\<close>.\<close>

definition is_upper :: "int \<Rightarrow> bool" where
  "is_upper c = (65 \<le> c \<and> c \<le> 90)"

definition symbol_re :: "jstring \<Rightarrow> bool" where
  "symbol_re s =
     (5 \<le> length s \<and> length s \<le> 20 \<and> list_all (\<lambda>c. is_upper c \<or> is_digit c) s)"

definition endsWith_slash :: "jstring \<Rightarrow> bool" where
  "endsWith_slash s = (s \<noteq> [] \<and> last s = ch CHR ''/'')"

text \<open>
  The outbound request: the URL up to the question mark, the pairs of the
  \<open>URLSearchParams\<close> in order (a number stands for the \<open>String(...)\<close> of it, and the
  form encoding of the pairs is the platform's), and the request headers.
\<close>

record outbound =
  out_url :: string
  out_query :: "(string \<times> jsval) list"
  out_headers :: "(string \<times> string) list"

text \<open>
  \<open>URLSearchParams.set\<close>: the first pair of that name takes the value and the later ones
  are removed; without such a pair, the new pair is appended.
\<close>

fun query_set :: "string \<Rightarrow> jsval \<Rightarrow> (string \<times> jsval) list \<Rightarrow> (string \<times> jsval) list" where
  "query_set k v [] = [(k, v)]"
| "query_set k v (kv # q) =
     (if fst kv = k then (k, v) # filter (\<lambda>kv'. fst kv' \<noteq> k) q
      else kv # query_set k v q)"

text \<open>
  What the outbound call can do: \<open>fetch\<close> rejects, or it resolves to a response with a
  status whose body is then read by \<open>text()\<close>, which can reject in turn. A rejection
  carries the thrown value: an \<open>Error\<close> with its message, or another value with its
  \<open>String(...)\<close>.
\<close>

datatype thrown = ErrorObject jstring | OtherValue jstring

datatype body_read = Text jstring | TextRejects thrown

datatype fetch_result = FetchRejects thrown | Responds nat body_read

definition ok :: "nat \<Rightarrow> bool" where
  "ok st = (200 \<le> st \<and> st \<le> 299)"

definition error_message :: "thrown \<Rightarrow> jstring" where
  "error_message e = (case e of ErrorObject m \<Rightarrow> m | OtherValue s \<Rightarrow> s)"

text \<open>
  The platform: the upstream's answer to each outbound request, \<open>JSON.parse\<close>, and the
  case mapping of Unicode, which \<open>toUpperCase\<close> applies to a string that is not all ASCII.
  The state threaded through the handler is the list of outbound calls issued so far.
\<close>

record platform =
  upstream :: "outbound \<Rightarrow> fetch_result"
  JSON_parse :: "jstring \<Rightarrow> json option"
  unicode_toUpperCase :: "jstring \<Rightarrow> jstring"

type_synonym world = "outbound list"

definition global_fetch :: "platform \<Rightarrow> outbound \<Rightarrow> world \<Rightarrow> fetch_result \<times> world" where
  "global_fetch P out w = (upstream P out, w @ [out])"

text \<open>
  \<open>String.prototype.toUpperCase\<close>. On a string whose code units are all ASCII it maps
  \<open>a-z\<close> to \<open>A-Z\<close> and leaves every other code unit. On any other string the result
  follows the case mappings of Unicode (which can produce ASCII letters: U+00DF becomes
  \<open>SS\<close>, U+0131 becomes \<open>I\<close>); that table is the platform's, and the result is taken
  from it.
\<close>

definition is_ascii :: "jstring \<Rightarrow> bool" where
  "is_ascii s = list_all (\<lambda>c. 0 \<le> c \<and> c < 128) s"

definition ascii_upper :: "jstring \<Rightarrow> jstring" where
  "ascii_upper s = map (\<lambda>c. if 97 \<le> c \<and> c \<le> 122 then c - 32 else c) s"

definition toUpperCase :: "platform \<Rightarrow> jstring \<Rightarrow> jstring" where
  "toUpperCase P s = (if is_ascii s then ascii_upper s else unicode_toUpperCase P s)"

definition BINANCE_BASE_URL :: string where
  "BINANCE_BASE_URL = ''https://api.binance.com''"

section \<open>The handler\<close>

definition service_descriptor :: json where
  "service_descriptor =
     JObj [(lit ''service'', JStr (lit ''binance-kline-api'')),
           (lit ''status'', JStr (lit ''ok'')),
           (lit ''endpoints'',
              JObj [(lit ''health'', JStr (lit ''/health'')),
                    (lit ''kline'', JStr (lit ''/kline?symbol=BTCUSDT&interval=1m&limit=100'')),
                    (lit ''klines'', JStr (lit ''/klines?symbol=ETHUSDT&interval=5m&limit=200''))]),
           (lit ''note'',
              JStr (lit ''Use /kline or /klines with query params: symbol, interval, limit, startTime, endTime''))]"

definition MethodNotAllowed :: response where
  "MethodNotAllowed =
     jsonResponse (JObj [(lit ''error'', JStr (lit ''Method Not Allowed'')),
                         (lit ''message'', JStr (lit ''Use GET requests only.''))]) 405"

definition NotFound :: response where
  "NotFound =
     jsonResponse
       (JObj [(lit ''error'', JStr (lit ''Not Found'')),
              (lit ''message'',
                 JStr (lit ''Use /kline or /klines with query params: symbol, interval, limit, startTime, endTime''))])
       404"

definition InvalidSymbol :: response where
  "InvalidSymbol = jsonResponse (JObj [(lit ''error'', JStr (lit ''Invalid symbol format''))]) 400"

definition InvalidInterval :: response where
  "InvalidInterval = jsonResponse (JObj [(lit ''error'', JStr (lit ''Invalid interval''))]) 400"

definition InvalidRange :: response where
  "InvalidRange =
     jsonResponse (JObj [(lit ''error'', JStr (lit ''startTime must be <= endTime''))]) 400"

definition UpstreamError :: "nat \<Rightarrow> json \<Rightarrow> response" where
  "UpstreamError st details =
     jsonResponse (JObj [(lit ''error'', JStr (lit ''Upstream error'')),
                         (lit ''status'', JNum (Fin (of_nat st))),
                         (lit ''details'', details)]) 502"

definition FetchFailure :: "jstring \<Rightarrow> response" where
  "FetchFailure msg =
     jsonResponse (JObj [(lit ''error'', JStr (lit ''Failed to fetch Binance kline data'')),
                         (lit ''message'', JStr msg)]) 502"

definition Success :: "jstring \<Rightarrow> jstring \<Rightarrow> number \<Rightarrow> json \<Rightarrow> response" where
  "Success symbol interval limit data =
     jsonResponse (JObj [(lit ''symbol'', JStr symbol),
                         (lit ''interval'', JStr interval),
                         (lit ''limit'', JNum limit),
                         (lit ''source'', JStr (lit ''binance'')),
                         (lit ''data'', data)]) 200"

text \<open>The \<open>try\<close> block of the handler (lines 83 to 118), after the outbound call has been issued.\<close>

definition map_upstream ::
  "platform \<Rightarrow> jstring \<Rightarrow> jstring \<Rightarrow> number \<Rightarrow> fetch_result \<Rightarrow> response" where
  "map_upstream P symbol interval limit r =
     (case r of
        FetchRejects e \<Rightarrow> FetchFailure (error_message e)
      | Responds st b \<Rightarrow>
          (case b of
             TextRejects e \<Rightarrow> FetchFailure (error_message e)
           | Text text \<Rightarrow>
               if \<not> ok st then UpstreamError st (safeParseJSON (JSON_parse P) text)
               else Success symbol interval limit (safeParseJSON (JSON_parse P) text)))"

definition upstream_request ::
  "jstring \<Rightarrow> jstring \<Rightarrow> number \<Rightarrow> number option \<Rightarrow> number option \<Rightarrow> outbound" where
  "upstream_request symbol interval limit startTime endTime =
     (let query = [(''symbol'', Str symbol), (''interval'', Str interval), (''limit'', Num limit)];
          query = (case startTime of None \<Rightarrow> query | Some t \<Rightarrow> query_set ''startTime'' (Num t) query);
          query = (case endTime of None \<Rightarrow> query | Some t \<Rightarrow> query_set ''endTime'' (Num t) query)
      in \<lparr>out_url = BINANCE_BASE_URL @ ''/api/v3/klines'',
          out_query = query,
          out_headers = [(''User-Agent'', ''kline-worker/1.0'')]\<rparr>)"

text \<open>\<open>startTime !== null && endTime !== null && startTime > endTime\<close>.\<close>

definition range_inverted :: "number option \<Rightarrow> number option \<Rightarrow> bool" where
  "range_inverted startTime endTime =
     (case (startTime, endTime) of
        (Some s, Some e) \<Rightarrow> js_gt s e
      | _ \<Rightarrow> False)"

text \<open>Line 42: one trailing slash is dropped from a path other than \<open>/\<close>.\<close>

definition strip_trailing_slash :: "jstring \<Rightarrow> jstring" where
  "strip_trailing_slash p = (if endsWith_slash p \<and> p \<noteq> lit ''/'' then butlast p else p)"

text \<open>Lines 54 to 58: the five values read from the query.\<close>

definition symbol_of :: "platform \<Rightarrow> request \<Rightarrow> jstring" where
  "symbol_of P req = toUpperCase P (or_default (get_param req ''symbol'') DEFAULT_SYMBOL)"

definition interval_of :: "request \<Rightarrow> jstring" where
  "interval_of req = or_default (get_param req ''interval'') DEFAULT_INTERVAL"

definition limit_of :: "request \<Rightarrow> number" where
  "limit_of req = clampLimit (param (get_param req ''limit''))"

definition startTime_of :: "request \<Rightarrow> number option" where
  "startTime_of req = parseTime (param (get_param req ''startTime''))"

definition endTime_of :: "request \<Rightarrow> number option" where
  "endTime_of req = parseTime (param (get_param req ''endTime''))"

text \<open>Lines 54 to 118: what the handler does once the path is \<open>/kline\<close> or \<open>/klines\<close>.\<close>

definition klines :: "platform \<Rightarrow> request \<Rightarrow> world \<Rightarrow> response \<times> world" where
  "klines P req w =
     (let symbol = symbol_of P req;
          interval = interval_of req;
          limit = limit_of req;
          startTime = startTime_of req;
          endTime = endTime_of req
      in if \<not> symbol_re symbol then (InvalidSymbol, w)
         else if interval \<notin> set ALLOWED_INTERVALS then (InvalidInterval, w)
         else if range_inverted startTime endTime then (InvalidRange, w)
         else
           let (r, w') =
                 global_fetch P (upstream_request symbol interval limit startTime endTime) w
           in (map_upstream P symbol interval limit r, w'))"

definition fetch :: "platform \<Rightarrow> request \<Rightarrow> world \<Rightarrow> response \<times> world" where
  "fetch P req w =
     (if http_method req \<noteq> lit ''GET'' \<and> http_method req \<noteq> lit ''OPTIONS''
        then (MethodNotAllowed, w)
      else if http_method req = lit ''OPTIONS''
        then (\<lparr>status = 204, headers = corsHeaders, body = None\<rparr>, w)
      else if pathname req = lit ''/'' \<or> pathname req = []
        then (jsonResponse service_descriptor 200, w)
      else if pathname req = lit ''/health''
        then (jsonResponse (JObj [(lit ''status'', JStr (lit ''ok''))]) 200, w)
      else
        let path = strip_trailing_slash (pathname req)
        in if path \<noteq> lit ''/kline'' \<and> path \<noteq> lit ''/klines'' then (NotFound, w)
           else klines P req w)"

section \<open>Notions used in the statements\<close>

text \<open>A request that the dispatch hands to lines 54 to 118: a GET whose path, after line 42, is \<open>/kline\<close> or \<open>/klines\<close>.\<close>

definition kline_route :: "request \<Rightarrow> bool" where
  "kline_route req =
     (http_method req = lit ''GET''
      \<and> (strip_trailing_slash (pathname req) = lit ''/kline''
           \<or> strip_trailing_slash (pathname req) = lit ''/klines''))"

text \<open>The three checks of lines 60 to 70 all pass.\<close>

definition validated :: "platform \<Rightarrow> request \<Rightarrow> bool" where
  "validated P req =
     (symbol_re (symbol_of P req)
      \<and> interval_of req \<in> set ALLOWED_INTERVALS
      \<and> \<not> range_inverted (startTime_of req) (endTime_of req))"

text \<open>The outbound request of a validated request (lines 72 to 88).\<close>

definition outbound_of :: "platform \<Rightarrow> request \<Rightarrow> outbound" where
  "outbound_of P req =
     upstream_request (symbol_of P req) (interval_of req) (limit_of req)
       (startTime_of req) (endTime_of req)"

text \<open>The same request with every pair of the given name removed from the query.\<close>

definition drop_param :: "string \<Rightarrow> request \<Rightarrow> request" where
  "drop_param name req =
     req\<lparr>searchParams := filter (\<lambda>kv. fst kv \<noteq> lit name) (searchParams req)\<rparr>"

text \<open>
  Platforms for the worked examples. They differ in the upstream: one that answers 200
  with an empty JSON array, one that answers 418 with text that is not JSON, one that
  cannot be reached, and one whose body cannot be read to the end. Their \<open>JSON.parse\<close>
  knows the empty array only, and their case mapping, outside ASCII, the letter U+00DF
  only, which it turns into \<open>SS\<close>.
\<close>

definition parse_empty_array :: "jstring \<Rightarrow> json option" where
  "parse_empty_array s = (if s = lit ''[]'' then Some (JArr []) else None)"

definition upper_sharp_s :: "jstring \<Rightarrow> jstring" where
  "upper_sharp_s s = concat (map (\<lambda>c. if c = 0xDF then lit ''SS'' else ascii_upper [c]) s)"

definition upstream_ok :: platform where
  "upstream_ok =
     \<lparr>upstream = (\<lambda>out. Responds 200 (Text (lit ''[]''))),
      JSON_parse = parse_empty_array,
      unicode_toUpperCase = upper_sharp_s\<rparr>"

definition upstream_teapot :: platform where
  "upstream_teapot =
     \<lparr>upstream = (\<lambda>out. Responds 418 (Text (lit ''teapot''))),
      JSON_parse = parse_empty_array,
      unicode_toUpperCase = upper_sharp_s\<rparr>"

definition upstream_down :: platform where
  "upstream_down =
     \<lparr>upstream = (\<lambda>out. FetchRejects (ErrorObject (lit ''connect failed''))),
      JSON_parse = parse_empty_array,
      unicode_toUpperCase = upper_sharp_s\<rparr>"

definition upstream_cut :: platform where
  "upstream_cut =
     \<lparr>upstream = (\<lambda>out. Responds 200 (TextRejects (OtherValue (lit ''body stream cut'')))),
      JSON_parse = parse_empty_array,
      unicode_toUpperCase = upper_sharp_s\<rparr>"

text \<open>A GET request with the given path and query, both ASCII.\<close>

definition get_request :: "string \<Rightarrow> (string \<times> string) list \<Rightarrow> request" where
  "get_request p q =
     \<lparr>http_method = lit ''GET'', pathname = lit p,
      searchParams = map (\<lambda>kv. (lit (fst kv), lit (snd kv))) q\<rparr>"

text \<open>A GET request for \<open>/kline\<close> with the given query, whose values are any strings.\<close>

definition kline_request :: "(string \<times> jstring) list \<Rightarrow> request" where
  "kline_request q =
     \<lparr>http_method = lit ''GET'', pathname = lit ''/kline'',
      searchParams = map (\<lambda>kv. (lit (fst kv), snd kv)) q\<rparr>"

section \<open>The rounding to binary64\<close>

lemma bit_length_pos: "0 < n \<Longrightarrow> 1 \<le> bit_length n"
  by (induction n rule: bit_length.induct) (subst bit_length.simps, simp add: bit_length.simps)

lemma bit_length_nonneg: "0 \<le> bit_length n"
proof (induction n rule: bit_length.induct)
  case (1 n)
  show ?case
  proof (cases "n \<le> 0")
    case True
    then show ?thesis by (subst bit_length.simps) simp
  next
    case False
    with 1 show ?thesis by (subst bit_length.simps) simp
  qed
qed

lemma bit_length_bounds:
  "0 < n \<Longrightarrow> 2 ^ nat (bit_length n - 1) \<le> n \<and> n < 2 ^ nat (bit_length n)"
proof (induction n rule: bit_length.induct)
  case (1 n)
  show ?case
  proof (cases "n = 1")
    case True
    have "bit_length 1 = 1" by (simp add: bit_length.simps)
    with True show ?thesis by simp
  next
    case False
    with 1(2) have h: "0 < n div 2" by simp
    from 1(2) have bl: "bit_length n = 1 + bit_length (n div 2)"
      by (subst bit_length.simps) simp
    from 1(1) h 1(2) have ih: "2 ^ nat (bit_length (n div 2) - 1) \<le> n div 2"
      "n div 2 < 2 ^ nat (bit_length (n div 2))" by simp_all
    from bit_length_pos [OF h] have p: "1 \<le> bit_length (n div 2)" .
    then have e1: "nat (bit_length n - 1) = Suc (nat (bit_length (n div 2) - 1))"
      using bl by simp
    from p have e2: "nat (bit_length n) = Suc (nat (bit_length (n div 2)))"
      using bl by simp
    have "2 * 2 ^ nat (bit_length (n div 2) - 1) \<le> 2 * (n div 2)" using ih(1) by simp
    also have "\<dots> \<le> n" by simp
    finally have lo: "2 ^ nat (bit_length n - 1) \<le> n" by (simp add: e1)
    have "n < 2 * (n div 2) + 2" by simp
    also have "\<dots> \<le> 2 * 2 ^ nat (bit_length (n div 2))" using ih(2) by simp
    finally have hi: "n < 2 ^ nat (bit_length n)" by (simp add: e2)
    from lo hi show ?thesis by simp
  qed
qed

lemma pow2_nonneg_eq: "0 \<le> e \<Longrightarrow> pow2 e = 2 ^ nat e"
  by (simp add: pow2_def)

lemma pow2_neg_eq: "0 \<le> e \<Longrightarrow> pow2 (- e) = 1 / 2 ^ nat e"
  by (cases "e = 0") (simp_all add: pow2_def)

text \<open>The binary exponent is the one its definition announces.\<close>

lemma ilog2_bounds:
  assumes "0 < q"
  shows "pow2 (ilog2 q) \<le> q \<and> q < pow2 (ilog2 q + 1)"
proof (cases "1 \<le> q")
  case True
  define n where "n = \<lfloor>q\<rfloor>"
  from True have n: "0 < n" by (simp add: n_def)
  have e: "ilog2 q = bit_length n - 1" using True by (simp add: ilog2_def n_def)
  from bit_length_pos [OF n] have p: "1 \<le> bit_length n" .
  from bit_length_bounds [OF n] have b: "2 ^ nat (bit_length n - 1) \<le> n" "n < 2 ^ nat (bit_length n)"
    by simp_all
  have "pow2 (ilog2 q) = of_int (2 ^ nat (bit_length n - 1))"
    using p by (simp add: e pow2_nonneg_eq)
  also have "\<dots> \<le> of_int n" using b(1) by (simp only: of_int_le_iff)
  also have "\<dots> \<le> q" by (simp add: n_def)
  finally have lo: "pow2 (ilog2 q) \<le> q" .
  have "q < of_int (n + 1)" using floor_correct [of q] by (simp add: n_def)
  also have "\<dots> \<le> of_int (2 ^ nat (bit_length n))" using b(2) by (simp only: of_int_le_iff)
  also have "\<dots> = pow2 (ilog2 q + 1)" using p by (simp add: e pow2_nonneg_eq)
  finally have hi: "q < pow2 (ilog2 q + 1)" .
  from lo hi show ?thesis by simp
next
  case False
  define k where "k = \<lceil>1 / q\<rceil>"
  define j where "j = k - 1"
  from False assms have "1 < 1 / q" by (simp add: field_simps)
  then have k2: "2 \<le> k" unfolding k_def by (simp add: le_ceiling_iff)
  then have n: "0 < j" by (simp add: j_def)
  define b where "b = bit_length j"
  have e: "ilog2 q = - b" using False by (simp add: ilog2_def k_def b_def j_def)
  from bit_length_pos [OF n] have p: "1 \<le> b" by (simp add: b_def)
  from bit_length_bounds [OF n] have bb: "2 ^ nat (b - 1) \<le> j" "j < 2 ^ nat b"
    by (simp_all add: b_def)
  have kq1: "1 / q \<le> of_int k"
    unfolding k_def by (simp add: ceiling_correct)
  have "of_int \<lceil>1 / q\<rceil> - 1 < 1 / q" using ceiling_correct [of "1 / q"] by simp
  then have kq2: "of_int j < 1 / q" by (simp add: j_def k_def)
  from bb(2) have "k \<le> 2 ^ nat b" by (simp add: j_def)
  then have "(of_int k :: rat) \<le> 2 ^ nat b" by simp
  with kq1 have "1 / q \<le> 2 ^ nat b" by (rule order_trans)
  with assms have "1 / 2 ^ nat b \<le> q" by (simp add: field_simps)
  then have lo: "pow2 (ilog2 q) \<le> q" using p by (simp add: e pow2_neg_eq)
  from bb(1) have "(2 ^ nat (b - 1) :: rat) \<le> of_int j" by simp
  from this kq2 have "2 ^ nat (b - 1) < 1 / q" by (rule le_less_trans)
  with assms have "q < 1 / 2 ^ nat (b - 1)" by (simp add: field_simps)
  moreover have "pow2 (ilog2 q + 1) = 1 / 2 ^ nat (b - 1)"
    using p pow2_neg_eq [of "b - 1"] by (simp add: e)
  ultimately have hi: "q < pow2 (ilog2 q + 1)" by simp
  from lo hi show ?thesis by simp
qed

lemma round_half_even_of_int: "round_half_even (of_int n) = n"
  by (simp add: round_half_even_def)

lemma to_binary64_nat:
  assumes "0 < N" "N < 2 ^ 53"
  shows "of_int (round_half_even (of_int N / pow2 (max (ilog2 (of_int N)) (- 1022) - 52)))
           * pow2 (max (ilog2 (of_int N)) (- 1022) - 52) = (of_int N :: rat)"
    and "max (ilog2 (of_int N)) (- 1022) \<le> 52"
proof -
  define e where "e = ilog2 (of_int N)"
  have e: "e = bit_length N - 1" using assms(1) by (simp add: e_def ilog2_def)
  from bit_length_pos [OF assms(1)] have e0: "0 \<le> e" by (simp add: e)
  from bit_length_bounds [OF assms(1)] have "2 ^ nat e \<le> N" by (simp add: e)
  with assms(2) have "(2::int) ^ nat e < 2 ^ 53" by simp
  then have "nat e < 53" by (simp only: power_strict_increasing_iff)
  with e0 have e52: "e \<le> 52" by simp
  define k where "k = nat (52 - e)"
  from e0 e52 have m: "max e (- 1022) = e" by simp
  have p: "pow2 (e - 52) = 1 / 2 ^ k"
    using e52 pow2_neg_eq [of "52 - e"] by (simp add: k_def)
  have "of_int N / pow2 (e - 52) = (of_int (N * 2 ^ k) :: rat)" by (simp add: p)
  then have r: "round_half_even (of_int N / pow2 (e - 52)) = N * 2 ^ k"
    by (simp only: round_half_even_of_int)
  show "of_int (round_half_even (of_int N / pow2 (max (ilog2 (of_int N)) (- 1022) - 52)))
           * pow2 (max (ilog2 (of_int N)) (- 1022) - 52) = (of_int N :: rat)"
    unfolding e_def [symmetric] m r by (simp add: p)
  show "max (ilog2 (of_int N)) (- 1022) \<le> 52"
    unfolding e_def [symmetric] m by (rule e52)
qed

text \<open>Rounding leaves every integer below \<open>2^53\<close> in magnitude as it is.\<close>

lemma to_binary64_of_int:
  assumes "\<bar>n\<bar> < 2 ^ 53"
  shows "to_binary64 (of_int n) = Fin (of_int n)"
proof (cases "n = 0")
  case True
  then show ?thesis by (simp add: to_binary64_def)
next
  case False
  define N where "N = \<bar>n\<bar>"
  from False assms have N: "0 < N" "N < 2 ^ 53" by (simp_all add: N_def)
  have a: "\<bar>of_int n :: rat\<bar> = of_int N" by (simp add: N_def)
  note t = to_binary64_nat [OF N]
  from t(2) have no: "\<not> (1024 \<le> max (ilog2 (of_int N)) (- 1022)
      \<or> (max (ilog2 (of_int N)) (- 1022) = 1023
          \<and> round_half_even (of_int N / pow2 (max (ilog2 (of_int N)) (- 1022) - 52)) = 2 ^ 53))"
    by linarith
  have "to_binary64 (of_int n)
      = Fin ((if 0 < n then 1 else - 1)
             * (of_int (round_half_even (of_int N / pow2 (max (ilog2 (of_int N)) (- 1022) - 52)))
               * pow2 (max (ilog2 (of_int N)) (- 1022) - 52)))"
    using False no by (simp add: to_binary64_def a Let_def mult.assoc)
  also have "\<dots> = Fin ((if 0 < n then 1 else - 1) * of_int N)"
    by (simp only: t(1))
  also have "\<dots> = Fin (of_int n)" using False by (simp add: N_def)
  finally show ?thesis .
qed

section \<open>The limit and the time parameters\<close>

text \<open>
  The conversion of strings on some inputs, among them the roundings of binary64 and
  white space beyond ASCII (U+200B, the zero width space, is not white space).
\<close>

lemma StringToNumber_examples:
  "StringToNumber [] = Fin 0"
  "StringToNumber (lit '' 12 '') = Fin 12"
  "StringToNumber (lit ''1e3'') = Fin 1000"
  "StringToNumber (lit ''.5'') = Fin (1 / 2)"
  "StringToNumber (lit ''5.'') = Fin 5"
  "StringToNumber (lit ''0x1F'') = Fin 31"
  "StringToNumber (lit ''-Infinity'') = NegInf"
  "StringToNumber (lit ''abc'') = NaN"
  "StringToNumber (lit ''12px'') = NaN"
  "StringToNumber (lit ''1_000'') = NaN"
  "StringToNumber (lit ''0.1'') = Fin (3602879701896397 / 36028797018963968)"
  "StringToNumber (lit ''9007199254740993'') = Fin 9007199254740992"
  "StringToNumber (lit ''0.99999999999999999999'') = Fin 1"
  "StringToNumber (0xA0 # lit ''250'') = Fin 250"
  "StringToNumber (0xFEFF # lit ''7'' @ [0x2028, 0x3000]) = Fin 7"
  "StringToNumber [0x2003] = Fin 0"
  "StringToNumber (0x200B # lit ''7'') = NaN"
  by code_simp+

lemma trunc_nonneg: "0 \<le> q \<Longrightarrow> 0 \<le> trunc q"
  by (simp add: trunc_def)

lemma trunc_of_int: "trunc (of_int n) = n"
  by (simp add: trunc_def)

text \<open>
  The rule of \<open>clampLimit\<close> on the number that \<open>Number(rawLimit)\<close> yields: the default
  for a value that is not finite or not positive, otherwise the truncation capped at 1000.
\<close>

lemma clampLimit_cases:
  "clampLimit v =
     (case Number v of
        Fin q \<Rightarrow> if q \<le> 0 then Fin 100
                 else if 1000 < trunc q then Fin 1000
                 else Fin (of_int (trunc q))
      | _ \<Rightarrow> Fin 100)"
  by (cases "Number v")
     (simp_all add: clampLimit_def isFinite_def js_le_def Math_min_def Math_trunc_def
        DEFAULT_LIMIT_def MAX_LIMIT_def)

lemma clampLimit_range: "\<exists>n. 0 \<le> n \<and> n \<le> 1000 \<and> clampLimit v = Fin (of_int n)"
proof (cases "Number v")
  case (Fin q)
  show ?thesis
  proof (cases "q \<le> 0")
    case True
    with Fin have "clampLimit v = Fin (of_int 100)" by (simp add: clampLimit_cases)
    then show ?thesis by (intro exI[of _ 100]) simp
  next
    case False
    then have nn: "0 \<le> trunc q" by (simp add: trunc_nonneg)
    show ?thesis
    proof (cases "1000 < trunc q")
      case True
      with Fin False have "clampLimit v = Fin (of_int 1000)" by (simp add: clampLimit_cases)
      then show ?thesis by (intro exI[of _ 1000]) simp
    next
      case le: False
      with Fin False have "clampLimit v = Fin (of_int (trunc q))" by (simp add: clampLimit_cases)
      with nn le show ?thesis by (intro exI[of _ "trunc q"]) simp
    qed
  qed
next
  case NaN
  then have "clampLimit v = Fin (of_int 100)" by (simp add: clampLimit_cases)
  then show ?thesis by (intro exI[of _ 100]) simp
next
  case PosInf
  then have "clampLimit v = Fin (of_int 100)" by (simp add: clampLimit_cases)
  then show ?thesis by (intro exI[of _ 100]) simp
next
  case NegInf
  then have "clampLimit v = Fin (of_int 100)" by (simp add: clampLimit_cases)
  then show ?thesis by (intro exI[of _ 100]) simp
qed

lemma clampLimit_of_int:
  "clampLimit (Num (Fin (of_int n))) =
     (if n \<le> 0 then Fin 100 else if 1000 < n then Fin 1000 else Fin (of_int n))"
  by (simp add: clampLimit_cases trunc_of_int)

text \<open>Clamping twice is clamping once, except where the first clamp yields 0.\<close>

lemma clampLimit_idem_unless_zero:
  assumes "clampLimit v \<noteq> Fin 0"
  shows "clampLimit (Num (clampLimit v)) = clampLimit v"
proof -
  obtain n where n: "0 \<le> n" "n \<le> 1000" "clampLimit v = Fin (of_int n)"
    using clampLimit_range by blast
  with assms have "n \<noteq> 0" by auto
  with n show ?thesis by (simp add: clampLimit_of_int)
qed

lemma clampLimit_examples:
  "clampLimit (Num (Fin (- 5))) = Fin 100"
  "clampLimit (Num (Fin 0)) = Fin 100"
  "clampLimit (Str (lit ''abc'')) = Fin 100"
  "clampLimit (Num (Fin 5000)) = Fin 1000"
  "clampLimit (Num (Fin 250)) = Fin 250"
  "clampLimit (Num (Fin (2509 / 10))) = Fin 250"
  "clampLimit (Str (lit ''250.9'')) = Fin 250"
  "clampLimit Null = Fin 100"
  "clampLimit (Num NaN) = Fin 100"
  "clampLimit (Num PosInf) = Fin 100"
  by code_simp+

text \<open>
  Claim C4. The clamping of the limit is said to be total, to map an absent, non-finite
  or non-positive value to 100 and any other value to its truncation capped at 1000, and
  to be idempotent. The mapping is as said (\<open>clampLimit_cases\<close>, \<open>clampLimit_examples\<close>),
  and so is idempotence wherever the result is not 0 (\<open>clampLimit_idem_unless_zero\<close>).
  But the test \<open>parsed <= 0\<close> comes before the truncation: a value strictly between 0 and 1,
  such as the query value \<open>0.5\<close>, passes it and is truncated to 0, and 0 clamps to 100.
  So \<open>clamp(0.5) = 0\<close> while \<open>clamp(clamp(0.5)) = 100\<close>.
\<close>

theorem clampLimit_fraction_below_one:
  "clampLimit (Str (lit ''0.5'')) = Fin 0
   \<and> clampLimit (Num (Fin (1 / 2))) = Fin 0
   \<and> clampLimit (Num (Fin 0)) = Fin 100
   \<and> clampLimit (Num (clampLimit (Str (lit ''0.5'')))) \<noteq> clampLimit (Str (lit ''0.5''))"
  by code_simp

theorem clampLimit_fraction_below_one_witness:
  "clampLimit (Str (lit ''0.5'')) = Fin 0 \<and> clampLimit (Num (clampLimit (Str (lit ''0.5'')))) = Fin 100"
  using clampLimit_fraction_below_one by simp

lemma parseTime_param:
  "parseTime (param p) =
     (case p of
        None \<Rightarrow> None
      | Some s \<Rightarrow>
          if s = [] then None
          else (case StringToNumber s of
                  Fin q \<Rightarrow> if q < 0 then None else Some (Fin (of_int (trunc q)))
                | _ \<Rightarrow> None))"
  by (cases p; cases "StringToNumber (the p)")
     (simp_all add: parseTime_def param_def isFinite_def Math_trunc_def)

lemma parseTime_shape:
  "parseTime v = None \<or> (\<exists>n. 0 \<le> n \<and> parseTime v = Some (Fin (of_int n)))"
  by (cases "Number v")
     (auto simp: parseTime_def isFinite_def Math_trunc_def trunc_def)

text \<open>
  Claim C5. \<open>parseTime\<close>, applied to the value of \<open>startTime\<close> or \<open>endTime\<close> in the query
  (null when the parameter is missing, a string otherwise), never fails: it returns null
  for a missing or empty value and for a string whose number is NaN, infinite or negative,
  and the number truncated toward zero for every other string. The result is therefore null
  or a non-negative integer. In particular \<open>parseTime(null)\<close>, \<open>parseTime("")\<close>,
  \<open>parseTime("-1")\<close> and \<open>parseTime("abc")\<close> are null and \<open>parseTime("1000.7")\<close> is 1000.
  The number of a string is the one \<open>Number\<close> gives it, which strips the white space
  of Unicode at both ends: a no-break space before \<open>2000\<close> still gives 2000.
  No operation of the function can throw, so the model has no error value.
\<close>

theorem parseTime_total:
  "parseTime (param p) =
     (case p of
        None \<Rightarrow> None
      | Some s \<Rightarrow>
          if s = [] then None
          else (case StringToNumber s of
                  Fin q \<Rightarrow> if q < 0 then None else Some (Fin (of_int (trunc q)))
                | _ \<Rightarrow> None))
   \<and> (parseTime (param p) = None
        \<or> (\<exists>n. 0 \<le> n \<and> parseTime (param p) = Some (Fin (of_int n))))
   \<and> parseTime Null = None
   \<and> parseTime (Str []) = None
   \<and> parseTime (Str (lit ''-1'')) = None
   \<and> parseTime (Str (lit ''abc'')) = None
   \<and> parseTime (Str (lit ''1000.7'')) = Some (Fin 1000)
   \<and> parseTime (Str (0xA0 # lit ''2000'')) = Some (Fin 2000)"
proof -
  have ex: "parseTime Null = None" "parseTime (Str []) = None" "parseTime (Str (lit ''-1'')) = None"
    "parseTime (Str (lit ''abc'')) = None" "parseTime (Str (lit ''1000.7'')) = Some (Fin 1000)"
    "parseTime (Str (0xA0 # lit ''2000'')) = Some (Fin 2000)"
    by code_simp+
  show ?thesis
    by (intro conjI) (rule parseTime_param, rule parseTime_shape, (rule ex)+)
qed

theorem parseTime_total_witness:
  "parseTime (param (Some (lit ''42.5''))) = Some (Fin 42) \<and> StringToNumber (lit ''42.5'') = Fin (85 / 2)"
proof -
  have "StringToNumber (lit ''42.5'') = Fin (85 / 2)" by code_simp
  moreover have "trunc (85 / 2) = 42" by code_simp
  ultimately show ?thesis using parseTime_total [of "Some (lit ''42.5'')"] by (simp add: lit_def)
qed

section \<open>Dispatch on the method and the path\<close>

lemma lit_slash: "lit ''/'' = [ch CHR ''/'']"
  by (simp add: lit_def)

text \<open>Literals are equal as code-unit strings exactly when they are equal as written.\<close>

lemma lit_eq_iff [simp]: "lit a = lit b \<longleftrightarrow> a = b"
proof -
  have "inj ch" by (rule injI) (simp add: ch_def)
  then show ?thesis unfolding lit_def by (rule inj_map_eq_map)
qed

lemma lit_Nil_iff [simp]: "lit a = [] \<longleftrightarrow> a = []" "[] = lit a \<longleftrightarrow> a = []"
  by (auto simp: lit_def)

lemma lit_append: "lit a @ lit b = lit (a @ b)"
  by (simp add: lit_def)

lemma strip_eq_iff:
  assumes "last t \<noteq> ch CHR ''/''" "t \<noteq> []"
  shows "strip_trailing_slash p = t \<longleftrightarrow> p = t \<or> p = t @ lit ''/''"
proof
  assume h: "strip_trailing_slash p = t"
  show "p = t \<or> p = t @ lit ''/''"
  proof (cases "endsWith_slash p \<and> p \<noteq> lit ''/''")
    case True
    with h have "butlast p = t" by (simp add: strip_trailing_slash_def)
    moreover from True have ne: "p \<noteq> []" and l: "last p = ch CHR ''/''"
      by (simp_all add: endsWith_slash_def)
    moreover from ne have "butlast p @ [last p] = p" by (rule append_butlast_last_id)
    ultimately show ?thesis by (auto simp: lit_slash)
  next
    case False
    with h show ?thesis by (simp add: strip_trailing_slash_def)
  qed
next
  assume "p = t \<or> p = t @ lit ''/''"
  then show "strip_trailing_slash p = t"
  proof
    assume "p = t"
    with assms show ?thesis by (auto simp: strip_trailing_slash_def endsWith_slash_def)
  next
    assume "p = t @ lit ''/''"
    with assms show ?thesis
      by (auto simp: strip_trailing_slash_def endsWith_slash_def lit_slash)
  qed
qed

lemma strip_kline:
  "strip_trailing_slash p = lit ''/kline'' \<longleftrightarrow> p = lit ''/kline'' \<or> p = lit ''/kline/''"
proof -
  have "last (lit ''/kline'') \<noteq> ch CHR ''/''" "lit ''/kline'' \<noteq> []"
    "lit ''/kline'' @ lit ''/'' = lit ''/kline/''"
    by (simp_all add: lit_def ch_def)
  with strip_eq_iff [of "lit ''/kline''" p] show ?thesis by simp
qed

lemma strip_klines:
  "strip_trailing_slash p = lit ''/klines'' \<longleftrightarrow> p = lit ''/klines'' \<or> p = lit ''/klines/''"
proof -
  have "last (lit ''/klines'') \<noteq> ch CHR ''/''" "lit ''/klines'' \<noteq> []"
    "lit ''/klines'' @ lit ''/'' = lit ''/klines/''"
    by (simp_all add: lit_def ch_def)
  with strip_eq_iff [of "lit ''/klines''" p] show ?thesis by simp
qed

lemma kline_route_iff:
  "kline_route req \<longleftrightarrow>
     http_method req = lit ''GET''
     \<and> pathname req \<in> {lit ''/kline'', lit ''/kline/'', lit ''/klines'', lit ''/klines/''}"
  by (auto simp: kline_route_def strip_kline strip_klines)

lemma fetch_kline_route: "kline_route req \<Longrightarrow> fetch P req w = klines P req w"
  by (auto simp: kline_route_iff fetch_def strip_kline strip_klines)

lemma fetch_GET_other:
  assumes "http_method req = lit ''GET''" "\<not> kline_route req"
  shows "fetch P req w =
     (if pathname req = lit ''/'' \<or> pathname req = []
        then (jsonResponse service_descriptor 200, w)
      else if pathname req = lit ''/health''
        then (jsonResponse (JObj [(lit ''status'', JStr (lit ''ok''))]) 200, w)
      else (NotFound, w))"
  using assms by (auto simp: kline_route_def fetch_def)

lemmas response_defs =
  MethodNotAllowed_def NotFound_def InvalidSymbol_def InvalidInterval_def InvalidRange_def
  UpstreamError_def FetchFailure_def Success_def jsonResponse_def

lemma error_responses:
  "InvalidSymbol \<noteq> InvalidInterval" "InvalidSymbol \<noteq> InvalidRange" "InvalidInterval \<noteq> InvalidRange"
  "InvalidInterval \<noteq> InvalidSymbol" "InvalidRange \<noteq> InvalidSymbol" "InvalidRange \<noteq> InvalidInterval"
  "status InvalidSymbol = 400" "status InvalidInterval = 400" "status InvalidRange = 400"
  "status NotFound = 404" "status MethodNotAllowed = 405"
  by (simp_all add: response_defs lit_def ch_def)

lemma map_upstream_status:
  "status (map_upstream P s i l r) = 502 \<or> status (map_upstream P s i l r) = 200"
  by (auto simp: map_upstream_def response_defs split: fetch_result.splits body_read.splits)

lemma map_upstream_not_400: "status (map_upstream P s i l r) \<noteq> 400"
  using map_upstream_status [of P s i l r] by auto

lemma klines_cases:
  "klines P req w =
     (if \<not> symbol_re (symbol_of P req) then (InvalidSymbol, w)
      else if interval_of req \<notin> set ALLOWED_INTERVALS then (InvalidInterval, w)
      else if range_inverted (startTime_of req) (endTime_of req) then (InvalidRange, w)
      else (map_upstream P (symbol_of P req) (interval_of req) (limit_of req)
              (upstream P (outbound_of P req)), w @ [outbound_of P req]))"
  by (simp add: klines_def global_fetch_def outbound_of_def Let_def)

lemma klines_validated:
  "validated P req \<Longrightarrow>
   klines P req w =
     (map_upstream P (symbol_of P req) (interval_of req) (limit_of req)
        (upstream P (outbound_of P req)), w @ [outbound_of P req])"
  by (simp add: klines_cases validated_def)

text \<open>Lines 54 to 118 read the query only: the path plays no part in them.\<close>

lemma klines_pathname: "klines P (req\<lparr>pathname := p\<rparr>) w = klines P req w"
  by (simp add: klines_cases symbol_of_def interval_of_def limit_of_def startTime_of_def
      endTime_of_def outbound_of_def get_param_def)

text \<open>
  Claim C9. Whatever the path, a request whose method is neither GET nor OPTIONS is
  answered with the Method Not Allowed error and status 405, and an OPTIONS request with
  status 204 and no body; in both cases nothing else happens (no outbound call is issued).
\<close>

theorem method_dispatch:
  "(http_method req \<noteq> lit ''GET'' \<and> http_method req \<noteq> lit ''OPTIONS''
      \<longrightarrow> fetch P req w = (MethodNotAllowed, w) \<and> status MethodNotAllowed = 405)
   \<and> (http_method req = lit ''OPTIONS''
      \<longrightarrow> fetch P req w = (\<lparr>status = 204, headers = corsHeaders, body = None\<rparr>, w))"
  by (simp add: fetch_def error_responses)

theorem method_dispatch_witness:
  "fetch upstream_ok \<lparr>http_method = lit ''POST'', pathname = lit ''/kline'', searchParams = []\<rparr> []
     = (MethodNotAllowed, [])
   \<and> status MethodNotAllowed = 405
   \<and> fetch upstream_ok \<lparr>http_method = lit ''OPTIONS'', pathname = lit ''/kline'', searchParams = []\<rparr> []
       = (\<lparr>status = 204, headers = corsHeaders, body = None\<rparr>, [])"
proof -
  have m: "lit ''POST'' \<noteq> lit ''GET''" "lit ''POST'' \<noteq> lit ''OPTIONS''"
    by (simp_all add: lit_def ch_def)
  show ?thesis
    using method_dispatch [of "\<lparr>http_method = lit ''POST'', pathname = lit ''/kline'', searchParams = []\<rparr>"
        upstream_ok "[]"]
      method_dispatch [of "\<lparr>http_method = lit ''OPTIONS'', pathname = lit ''/kline'', searchParams = []\<rparr>"
        upstream_ok "[]"]
    by (simp add: m)
qed

text \<open>
  Claim C8. For a GET request: the path \<open>/\<close> or the empty path yields the service
  descriptor with status 200, and \<open>/health\<close> yields \<open>{status: "ok"}\<close> with status 200.
  Any other path loses one trailing slash before it is matched, so the paths that go on to
  the validation of the parameters are \<open>/kline\<close>, \<open>/klines\<close>, \<open>/kline/\<close> and
  \<open>/klines/\<close>, and every remaining path yields the Not Found error with status 404.
  A path \<open>p/\<close> is handled as \<open>p\<close> is, for every \<open>p\<close> that is not empty, does not end in
  a slash and is not \<open>/health\<close> (those three are matched before the slash is dropped);
  \<open>/kline/\<close> is handled as \<open>/kline\<close>, and \<open>/klines\<close> as \<open>/kline\<close>.
\<close>

theorem path_dispatch:
  assumes "http_method req = lit ''GET''"
  shows "(pathname req = lit ''/'' \<or> pathname req = []
            \<longrightarrow> fetch P req w = (jsonResponse service_descriptor 200, w))
       \<and> (pathname req = lit ''/health''
            \<longrightarrow> fetch P req w = (jsonResponse (JObj [(lit ''status'', JStr (lit ''ok''))]) 200, w))
       \<and> (pathname req \<in> {lit ''/kline'', lit ''/klines'', lit ''/kline/'', lit ''/klines/''}
            \<longrightarrow> fetch P req w = klines P req w)
       \<and> (pathname req \<notin> {lit ''/'', [], lit ''/health'', lit ''/kline'', lit ''/klines'',
                              lit ''/kline/'', lit ''/klines/''}
            \<longrightarrow> fetch P req w = (NotFound, w) \<and> status NotFound = 404)
       \<and> (p \<noteq> [] \<and> \<not> endsWith_slash p \<and> p \<noteq> lit ''/health''
            \<longrightarrow> fetch P (req\<lparr>pathname := p @ lit ''/''\<rparr>) w = fetch P (req\<lparr>pathname := p\<rparr>) w)
       \<and> fetch P (req\<lparr>pathname := lit ''/kline/''\<rparr>) w = fetch P (req\<lparr>pathname := lit ''/kline''\<rparr>) w
       \<and> fetch P (req\<lparr>pathname := lit ''/klines''\<rparr>) w = fetch P (req\<lparr>pathname := lit ''/kline''\<rparr>) w"
proof -
  have a: "pathname req = lit ''/'' \<or> pathname req = []
            \<longrightarrow> fetch P req w = (jsonResponse service_descriptor 200, w)"
    using assms by (auto simp: fetch_def)
  have b: "pathname req = lit ''/health''
            \<longrightarrow> fetch P req w = (jsonResponse (JObj [(lit ''status'', JStr (lit ''ok''))]) 200, w)"
    using assms by (auto simp: fetch_def)
  have c: "pathname req \<in> {lit ''/kline'', lit ''/klines'', lit ''/kline/'', lit ''/klines/''}
            \<longrightarrow> fetch P req w = klines P req w"
    using assms fetch_kline_route [of req P w] by (auto simp: kline_route_iff)
  have d: "pathname req \<notin> {lit ''/'', [], lit ''/health'', lit ''/kline'', lit ''/klines'',
                              lit ''/kline/'', lit ''/klines/''}
            \<longrightarrow> fetch P req w = (NotFound, w) \<and> status NotFound = 404"
    using assms fetch_GET_other [of req P w]
    by (auto simp: kline_route_iff error_responses)
  have e: "fetch P (req\<lparr>pathname := q @ lit ''/''\<rparr>) w = fetch P (req\<lparr>pathname := q\<rparr>) w"
    if q: "q \<noteq> []" "\<not> endsWith_slash q" "q \<noteq> lit ''/health''" for q
  proof -
    from q have s1: "strip_trailing_slash (q @ lit ''/'') = q"
      by (simp add: strip_trailing_slash_def endsWith_slash_def lit_slash)
    from q have s2: "strip_trailing_slash q = q"
      by (simp add: strip_trailing_slash_def)
    from q have n: "q \<noteq> lit ''/''" by (auto simp: endsWith_slash_def lit_slash)
    have n2: "q @ lit ''/'' \<noteq> lit ''/health''"
    proof
      assume "q @ lit ''/'' = lit ''/health''"
      then have "last (q @ lit ''/'') = last (lit ''/health'')" by simp
      then show False by (simp add: lit_def ch_def)
    qed
    from q have n3: "q @ lit ''/'' \<noteq> lit ''/''" by (simp add: lit_slash)
    from q n n2 n3 show ?thesis
      using assms by (simp add: fetch_def s1 s2 klines_pathname)
  qed
  have f: "fetch P (req\<lparr>pathname := lit ''/kline/''\<rparr>) w = fetch P (req\<lparr>pathname := lit ''/kline''\<rparr>) w"
    using assms fetch_kline_route [of "req\<lparr>pathname := lit ''/kline/''\<rparr>" P w]
      fetch_kline_route [of "req\<lparr>pathname := lit ''/kline''\<rparr>" P w]
    by (simp add: kline_route_iff klines_pathname)
  have g: "fetch P (req\<lparr>pathname := lit ''/klines''\<rparr>) w = fetch P (req\<lparr>pathname := lit ''/kline''\<rparr>) w"
    using assms fetch_kline_route [of "req\<lparr>pathname := lit ''/klines''\<rparr>" P w]
      fetch_kline_route [of "req\<lparr>pathname := lit ''/kline''\<rparr>" P w]
    by (simp add: kline_route_iff klines_pathname)
  from a b c d e [of p] f g show ?thesis by blast
qed

theorem path_dispatch_witness:
  "fetch upstream_ok (get_request ''/klines/'' []) [] = fetch upstream_ok (get_request ''/klines'' []) []
   \<and> (fetch upstream_ok (get_request ''/'' []) [] = (jsonResponse service_descriptor 200, [])
   \<and> fetch upstream_ok (get_request [] []) [] = (jsonResponse service_descriptor 200, [])
   \<and> fetch upstream_ok (get_request ''/health'' []) []
       = (jsonResponse (JObj [(lit ''status'', JStr (lit ''ok''))]) 200, [])
   \<and> fetch upstream_ok (get_request ''/health/'' []) [] = (NotFound, [])
   \<and> fetch upstream_ok (get_request ''/kline//'' []) [] = (NotFound, [])
   \<and> fetch upstream_ok (get_request ''/KLINE'' []) [] = (NotFound, [])
   \<and> status NotFound = 404
   \<and> fetch upstream_ok (get_request ''/kline/'' []) [] = fetch upstream_ok (get_request ''/kline'' []) []
   \<and> fetch upstream_ok (get_request ''/klines/'' []) [] = klines upstream_ok (get_request ''/klines/'' []) [])"
proof -
  have g: "http_method (get_request p q) = lit ''GET''" for p q by (simp add: get_request_def)
  have u: "(get_request p q)\<lparr>pathname := lit p'\<rparr> = get_request p' q" for p p' q
    by (simp add: get_request_def)
  have pn: "pathname (get_request p q) = lit p" for p q by (simp add: get_request_def)
  have ne: "lit ''/klines'' \<noteq> []" "\<not> endsWith_slash (lit ''/klines'')"
    "lit ''/klines'' \<noteq> lit ''/health''" "lit ''/klines'' @ lit ''/'' = lit ''/klines/''"
    by (simp_all add: lit_def ch_def endsWith_slash_def)
  have slash: "fetch upstream_ok (get_request ''/klines/'' []) []
      = fetch upstream_ok (get_request ''/klines'' []) []"
    using path_dispatch [OF g, where p1 = "''/klines''" and q1 = "[]" and P = upstream_ok and w = "[]"
        and p = "lit ''/klines''"]
    by (simp add: u ne)
  have lits: "lit ''/'' \<noteq> []" "lit [] = []"
    "lit ''/health/'' \<notin> {lit ''/'', [], lit ''/health'', lit ''/kline'', lit ''/klines'',
                              lit ''/kline/'', lit ''/klines/''}"
    "lit ''/kline//'' \<notin> {lit ''/'', [], lit ''/health'', lit ''/kline'', lit ''/klines'',
                              lit ''/kline/'', lit ''/klines/''}"
    "lit ''/KLINE'' \<notin> {lit ''/'', [], lit ''/health'', lit ''/kline'', lit ''/klines'',
                              lit ''/kline/'', lit ''/klines/''}"
    by (simp_all add: lit_def ch_def)
  have rest: "fetch upstream_ok (get_request ''/'' []) [] = (jsonResponse service_descriptor 200, [])
   \<and> fetch upstream_ok (get_request [] []) [] = (jsonResponse service_descriptor 200, [])
   \<and> fetch upstream_ok (get_request ''/health'' []) []
       = (jsonResponse (JObj [(lit ''status'', JStr (lit ''ok''))]) 200, [])
   \<and> fetch upstream_ok (get_request ''/health/'' []) [] = (NotFound, [])
   \<and> fetch upstream_ok (get_request ''/kline//'' []) [] = (NotFound, [])
   \<and> fetch upstream_ok (get_request ''/KLINE'' []) [] = (NotFound, [])
   \<and> status NotFound = 404
   \<and> fetch upstream_ok (get_request ''/kline/'' []) [] = fetch upstream_ok (get_request ''/kline'' []) []
   \<and> fetch upstream_ok (get_request ''/klines/'' []) [] = klines upstream_ok (get_request ''/klines/'' []) []"
    using path_dispatch [OF g, where p1 = "''/''" and q1 = "[]" and P = upstream_ok and w = "[]"]
      path_dispatch [OF g, where p1 = "[]" and q1 = "[]" and P = upstream_ok and w = "[]"]
      path_dispatch [OF g, where p1 = "''/health''" and q1 = "[]" and P = upstream_ok and w = "[]"]
      path_dispatch [OF g, where p1 = "''/health/''" and q1 = "[]" and P = upstream_ok and w = "[]"]
      path_dispatch [OF g, where p1 = "''/kline//''" and q1 = "[]" and P = upstream_ok and w = "[]"]
      path_dispatch [OF g, where p1 = "''/KLINE''" and q1 = "[]" and P = upstream_ok and w = "[]"]
      path_dispatch [OF g, where p1 = "''/klines/''" and q1 = "[]" and P = upstream_ok and w = "[]"]
    by (simp add: u pn lits)
  from slash rest show ?thesis by (rule conjI)
qed

section \<open>Validation of the parameters\<close>

text \<open>On a string of ASCII code units the upper-casing does not depend on the platform.\<close>

lemma toUpperCase_ascii: "is_ascii s \<Longrightarrow> toUpperCase P s = ascii_upper s"
  by (simp add: toUpperCase_def)

lemma default_symbol_ok:
  "toUpperCase P DEFAULT_SYMBOL = lit ''BTCUSDT''" "symbol_re (lit ''BTCUSDT'')"
  by (simp_all add: toUpperCase_def is_ascii_def ascii_upper_def DEFAULT_SYMBOL_def lit_def ch_def
      symbol_re_def is_upper_def is_digit_def)

lemma default_interval_ok: "DEFAULT_INTERVAL \<in> set ALLOWED_INTERVALS"
  by (simp add: DEFAULT_INTERVAL_def ALLOWED_INTERVALS_def)

lemma allowed_set:
  "set ALLOWED_INTERVALS =
     {lit ''1s'', lit ''1m'', lit ''3m'', lit ''5m'', lit ''15m'', lit ''30m'', lit ''1h'', lit ''2h'',
      lit ''4h'', lit ''6h'', lit ''8h'', lit ''12h'', lit ''1d'', lit ''3d'', lit ''1w'', lit ''1M''}"
  by (simp add: ALLOWED_INTERVALS_def)

text \<open>The character class of the pattern, spelled out.\<close>

lemma upper_codes: "set (lit ''ABCDEFGHIJKLMNOPQRSTUVWXYZ'') = {65..90}"
proof -
  have "lit ''ABCDEFGHIJKLMNOPQRSTUVWXYZ'' = [65..90]" by (simp add: lit_def ch_def)
  then have "set (lit ''ABCDEFGHIJKLMNOPQRSTUVWXYZ'') = set [65..90]" by (rule arg_cong)
  then show ?thesis by (simp only: set_upto)
qed

lemma digit_codes: "set (lit ''0123456789'') = {48..57}"
proof -
  have "lit ''0123456789'' = [48..57]" by (simp add: lit_def ch_def)
  then have "set (lit ''0123456789'') = set [48..57]" by (rule arg_cong)
  then show ?thesis by (simp only: set_upto)
qed

lemma is_upper_iff: "is_upper c \<longleftrightarrow> c \<in> set (lit ''ABCDEFGHIJKLMNOPQRSTUVWXYZ'')"
  unfolding upper_codes by (simp add: is_upper_def)

lemma is_digit_iff: "is_digit c \<longleftrightarrow> c \<in> set (lit ''0123456789'')"
  unfolding digit_codes by (simp add: is_digit_def)

lemma in_class_iff:
  "is_upper c \<or> is_digit c \<longleftrightarrow> c \<in> set (lit ''ABCDEFGHIJKLMNOPQRSTUVWXYZ0123456789'')"
proof -
  have "lit ''ABCDEFGHIJKLMNOPQRSTUVWXYZ0123456789''
      = lit ''ABCDEFGHIJKLMNOPQRSTUVWXYZ'' @ lit ''0123456789''"
    by (simp add: lit_def)
  then have "set (lit ''ABCDEFGHIJKLMNOPQRSTUVWXYZ0123456789'')
      = set (lit ''ABCDEFGHIJKLMNOPQRSTUVWXYZ'') \<union> set (lit ''0123456789'')"
    by (simp only: set_append)
  then show ?thesis by (simp only: is_upper_iff is_digit_iff Un_iff)
qed

lemma symbol_re_iff:
  "symbol_re s \<longleftrightarrow>
     5 \<le> length s \<and> length s \<le> 20
     \<and> set s \<subseteq> set (lit ''ABCDEFGHIJKLMNOPQRSTUVWXYZ0123456789'')"
  unfolding symbol_re_def list_all_iff in_class_iff by blast

text \<open>
  Claim C2, as stated, fails on the empty string. The claim lists \<open>""\<close> among the symbol
  values that must be rejected with the Invalid symbol error. Line 54 reads the symbol as
  \<open>get('symbol') || DEFAULT_SYMBOL\<close>, so an empty value is replaced by the default before the
  pattern is tested: the request \<open>/kline?symbol=\<close> is validated with \<open>BTCUSDT\<close> and goes on to
  the upstream call, although the empty string does not match the pattern.
\<close>

theorem empty_symbol_counterexample:
  "\<not> symbol_re (toUpperCase upstream_ok [])
   \<and> get_param (get_request ''/kline'' [(''symbol'', [])]) ''symbol'' = Some []
   \<and> fetch upstream_ok (get_request ''/kline'' [(''symbol'', [])]) []
       = (Success (lit ''BTCUSDT'') (lit ''1m'') (Fin 100) (JArr []),
          [outbound_of upstream_ok (get_request ''/kline'' [(''symbol'', [])])])
   \<and> Success (lit ''BTCUSDT'') (lit ''1m'') (Fin 100) (JArr []) \<noteq> InvalidSymbol"
  by code_simp

text \<open>
  Claim C2, amended. For every request to \<open>/kline\<close> or \<open>/klines\<close>, the symbol is
  \<open>BTCUSDT\<close> when the parameter is absent or empty and the uppercased value of the parameter
  otherwise; if the symbol does not match \<open>^[A-Z0-9]{5,20}$\<close> (between 5 and 20 code units,
  each an upper-case ASCII letter or a digit) the response is the Invalid symbol error with
  status 400 and nothing else happens, and if it matches, the response is not that error. So
  every non-empty value that does not match after uppercasing is rejected (\<open>btc\<close> and
  \<open>BTC_USDT\<close> are; \<open>btcusdt\<close> is accepted). The uppercasing is that of the language: on
  a value of ASCII code units it maps \<open>a-z\<close> to \<open>A-Z\<close>, and on any other value it follows
  the platform's Unicode case mapping, whose result is what the pattern is tested on (a value
  with the letter U+00DF, which uppercases to \<open>SS\<close>, can match).
\<close>

theorem symbol_validation:
  assumes "kline_route req"
  shows "(get_param req ''symbol'' = None \<or> get_param req ''symbol'' = Some []
            \<longrightarrow> symbol_of P req = lit ''BTCUSDT'')
       \<and> (get_param req ''symbol'' = Some s \<and> s \<noteq> [] \<longrightarrow> symbol_of P req = toUpperCase P s)
       \<and> (\<not> symbol_re (symbol_of P req) \<longrightarrow> fetch P req w = (InvalidSymbol, w))
       \<and> (symbol_re (symbol_of P req) \<longrightarrow> fst (fetch P req w) \<noteq> InvalidSymbol)
       \<and> status InvalidSymbol = 400
       \<and> (symbol_re x \<longleftrightarrow>
            5 \<le> length x \<and> length x \<le> 20
            \<and> set x \<subseteq> set (lit ''ABCDEFGHIJKLMNOPQRSTUVWXYZ0123456789''))
       \<and> (is_ascii x \<longrightarrow> toUpperCase P x = ascii_upper x)
       \<and> (\<not> is_ascii x \<longrightarrow> toUpperCase P x = unicode_toUpperCase P x)
       \<and> \<not> symbol_re (toUpperCase P (lit ''btc''))
       \<and> \<not> symbol_re (toUpperCase P (lit ''BTC_USDT''))
       \<and> symbol_re (toUpperCase P (lit ''btcusdt''))"
proof -
  have ex: "\<not> symbol_re (toUpperCase P (lit ''btc''))"
    "\<not> symbol_re (toUpperCase P (lit ''BTC_USDT''))"
    "symbol_re (toUpperCase P (lit ''btcusdt''))"
    by (simp_all add: toUpperCase_def is_ascii_def ascii_upper_def lit_def ch_def
        symbol_re_def is_upper_def is_digit_def)
  have up: "is_ascii x \<longrightarrow> toUpperCase P x = ascii_upper x"
    "\<not> is_ascii x \<longrightarrow> toUpperCase P x = unicode_toUpperCase P x"
    by (simp_all add: toUpperCase_def)
  have d: "get_param req ''symbol'' = None \<or> get_param req ''symbol'' = Some []
            \<longrightarrow> symbol_of P req = lit ''BTCUSDT''"
    by (auto simp: symbol_of_def or_default_def default_symbol_ok)
  have u: "get_param req ''symbol'' = Some s \<and> s \<noteq> [] \<longrightarrow> symbol_of P req = toUpperCase P s"
    by (simp add: symbol_of_def or_default_def)
  have bad: "\<not> symbol_re (symbol_of P req) \<longrightarrow> fetch P req w = (InvalidSymbol, w)"
    using assms by (simp add: fetch_kline_route klines_cases)
  have good: "symbol_re (symbol_of P req) \<longrightarrow> fst (fetch P req w) \<noteq> InvalidSymbol"
    using assms
      map_upstream_not_400 [of P "symbol_of P req" "interval_of req" "limit_of req"
        "upstream P (outbound_of P req)"]
    by (auto simp: fetch_kline_route klines_cases error_responses)
  have st: "status InvalidSymbol = 400" by (simp add: error_responses)
  from d u bad good st symbol_re_iff [of x] up ex show ?thesis by blast
qed

theorem symbol_validation_witness:
  "fetch upstream_ok (get_request ''/klines'' [(''symbol'', ''btc'')]) [] = (InvalidSymbol, [])
   \<and> symbol_of upstream_ok (get_request ''/klines'' [(''symbol'', ''ethusdt'')]) = lit ''ETHUSDT''
   \<and> fst (fetch upstream_ok (get_request ''/klines'' [(''symbol'', ''ethusdt'')]) []) \<noteq> InvalidSymbol
   \<and> symbol_of upstream_ok (get_request ''/klines'' []) = lit ''BTCUSDT''
   \<and> symbol_of upstream_ok (kline_request [(''symbol'', lit ''stra'' @ 0xDF # lit ''e'')])
       = lit ''STRASSE''
   \<and> fst (fetch upstream_ok (kline_request [(''symbol'', lit ''stra'' @ 0xDF # lit ''e'')]) [])
       \<noteq> InvalidSymbol
   \<and> fetch upstream_ok (kline_request [(''symbol'', lit ''btc'' @ [0xE9])]) [] = (InvalidSymbol, [])"
proof -
  let ?a = "get_request ''/klines'' [(''symbol'', ''btc'')]"
  let ?b = "get_request ''/klines'' [(''symbol'', ''ethusdt'')]"
  let ?c = "get_request ''/klines'' []"
  let ?d = "kline_request [(''symbol'', lit ''stra'' @ 0xDF # lit ''e'')]"
  let ?e = "kline_request [(''symbol'', lit ''btc'' @ [0xE9])]"
  have kr: "kline_route ?a" "kline_route ?b" "kline_route ?c" "kline_route ?d" "kline_route ?e"
    by code_simp+
  have ev: "symbol_of upstream_ok ?a = lit ''BTC''" "\<not> symbol_re (lit ''BTC'')"
    "get_param ?b ''symbol'' = Some (lit ''ethusdt'')"
    "toUpperCase upstream_ok (lit ''ethusdt'') = lit ''ETHUSDT''"
    "symbol_re (lit ''ETHUSDT'')" "get_param ?c ''symbol'' = None"
    "get_param ?d ''symbol'' = Some (lit ''stra'' @ 0xDF # lit ''e'')"
    "toUpperCase upstream_ok (lit ''stra'' @ 0xDF # lit ''e'') = lit ''STRASSE''"
    "symbol_re (lit ''STRASSE'')"
    "\<not> symbol_re (symbol_of upstream_ok ?e)"
    by code_simp+
  show ?thesis
    using symbol_validation [OF kr(1), where P = upstream_ok and w = "[]" and s = "[]" and x = "[]"]
      symbol_validation [OF kr(2), where P = upstream_ok and w = "[]" and s = "lit ''ethusdt''"
        and x = "[]"]
      symbol_validation [OF kr(3), where P = upstream_ok and w = "[]" and s = "[]" and x = "[]"]
      symbol_validation [OF kr(4), where P = upstream_ok and w = "[]"
        and s = "lit ''stra'' @ 0xDF # lit ''e''" and x = "[]"]
      symbol_validation [OF kr(5), where P = upstream_ok and w = "[]" and s = "[]" and x = "[]"]
    by (simp add: ev)
qed

text \<open>
  Claim C3, as stated, fails in two places. The checks run in order (lines 60 to 66), so a
  request whose symbol is invalid is answered with the Invalid symbol error whatever its
  interval: \<open>/kline?symbol=btc&interval=2m\<close> does not yield the Invalid interval error
  although \<open>2m\<close> is not allowed. And line 55 reads the interval as
  \<open>get('interval') || DEFAULT_INTERVAL\<close>, so an empty value, which is not in the set,
  is replaced by \<open>1m\<close> and accepted.
\<close>

theorem interval_behind_symbol_counterexample:
  "lit ''2m'' \<notin> set ALLOWED_INTERVALS
   \<and> interval_of (get_request ''/kline'' [(''symbol'', ''btc''), (''interval'', ''2m'')]) = lit ''2m''
   \<and> fetch upstream_ok (get_request ''/kline'' [(''symbol'', ''btc''), (''interval'', ''2m'')]) []
       = (InvalidSymbol, [])
   \<and> InvalidSymbol \<noteq> InvalidInterval
   \<and> [] \<notin> set ALLOWED_INTERVALS
   \<and> get_param (get_request ''/kline'' [(''interval'', [])]) ''interval'' = Some []
   \<and> fst (fetch upstream_ok (get_request ''/kline'' [(''interval'', [])]) [])
       = Success (lit ''BTCUSDT'') (lit ''1m'') (Fin 100) (JArr [])
   \<and> Success (lit ''BTCUSDT'') (lit ''1m'') (Fin 100) (JArr []) \<noteq> InvalidInterval"
  by code_simp

text \<open>
  Claim C3, amended. For every request to \<open>/kline\<close> or \<open>/klines\<close> whose symbol passes
  validation, the interval is \<open>1m\<close> when the parameter is absent or empty and the value of
  the parameter otherwise; if the interval is not one of the sixteen allowed strings the
  response is the Invalid interval error with status 400 and nothing else happens, and if it
  is one of them, the response is not that error. Membership is equality of strings, so it is
  case-sensitive: \<open>1m\<close> and \<open>1M\<close> are both allowed and distinct, and \<open>2m\<close>, \<open>1Y\<close>,
  \<open>1H\<close> and \<open>1D\<close> are rejected.
\<close>

theorem interval_validation:
  assumes "kline_route req" and "symbol_re (symbol_of P req)"
  shows "(get_param req ''interval'' = None \<or> get_param req ''interval'' = Some []
            \<longrightarrow> interval_of req = lit ''1m'')
       \<and> (get_param req ''interval'' = Some i \<and> i \<noteq> [] \<longrightarrow> interval_of req = i)
       \<and> (interval_of req \<notin> set ALLOWED_INTERVALS \<longrightarrow> fetch P req w = (InvalidInterval, w))
       \<and> (interval_of req \<in> set ALLOWED_INTERVALS \<longrightarrow> fst (fetch P req w) \<noteq> InvalidInterval)
       \<and> status InvalidInterval = 400
       \<and> set ALLOWED_INTERVALS =
           {lit ''1s'', lit ''1m'', lit ''3m'', lit ''5m'', lit ''15m'', lit ''30m'', lit ''1h'',
            lit ''2h'', lit ''4h'', lit ''6h'', lit ''8h'', lit ''12h'', lit ''1d'', lit ''3d'',
            lit ''1w'', lit ''1M''}
       \<and> lit ''1m'' \<in> set ALLOWED_INTERVALS \<and> lit ''1M'' \<in> set ALLOWED_INTERVALS
       \<and> lit ''1m'' \<noteq> lit ''1M''
       \<and> lit ''2m'' \<notin> set ALLOWED_INTERVALS \<and> lit ''1Y'' \<notin> set ALLOWED_INTERVALS
       \<and> lit ''1H'' \<notin> set ALLOWED_INTERVALS \<and> lit ''1D'' \<notin> set ALLOWED_INTERVALS"
proof -
  have d: "get_param req ''interval'' = None \<or> get_param req ''interval'' = Some []
            \<longrightarrow> interval_of req = lit ''1m''"
    by (auto simp: interval_of_def or_default_def DEFAULT_INTERVAL_def)
  have u: "get_param req ''interval'' = Some i \<and> i \<noteq> [] \<longrightarrow> interval_of req = i"
    by (simp add: interval_of_def or_default_def)
  have bad: "interval_of req \<notin> set ALLOWED_INTERVALS \<longrightarrow> fetch P req w = (InvalidInterval, w)"
    using assms by (simp add: fetch_kline_route klines_cases)
  have good: "interval_of req \<in> set ALLOWED_INTERVALS \<longrightarrow> fst (fetch P req w) \<noteq> InvalidInterval"
    using assms
      map_upstream_not_400 [of P "symbol_of P req" "interval_of req" "limit_of req"
        "upstream P (outbound_of P req)"]
    by (auto simp: fetch_kline_route klines_cases error_responses)
  have ex: "lit ''1m'' \<in> set ALLOWED_INTERVALS \<and> lit ''1M'' \<in> set ALLOWED_INTERVALS
       \<and> lit ''1m'' \<noteq> lit ''1M''
       \<and> lit ''2m'' \<notin> set ALLOWED_INTERVALS \<and> lit ''1Y'' \<notin> set ALLOWED_INTERVALS
       \<and> lit ''1H'' \<notin> set ALLOWED_INTERVALS \<and> lit ''1D'' \<notin> set ALLOWED_INTERVALS"
    by (simp add: ALLOWED_INTERVALS_def)
  have st: "status InvalidInterval = 400" by (simp add: error_responses)
  from d u bad good st ex allowed_set show ?thesis by blast
qed

theorem interval_validation_witness:
  "fetch upstream_ok (get_request ''/kline'' [(''interval'', ''2m'')]) [] = (InvalidInterval, [])
   \<and> fetch upstream_ok (get_request ''/kline'' [(''interval'', ''1m'')]) []
       \<noteq> fetch upstream_ok (get_request ''/kline'' [(''interval'', ''1M'')]) []
   \<and> fst (fetch upstream_ok (get_request ''/kline'' [(''interval'', ''1M'')]) []) \<noteq> InvalidInterval
   \<and> interval_of (get_request ''/kline'' []) = lit ''1m''"
proof -
  let ?a = "get_request ''/kline'' [(''interval'', ''2m'')]"
  let ?b = "get_request ''/kline'' [(''interval'', ''1M'')]"
  let ?c = "get_request ''/kline'' []"
  have kr: "kline_route ?a" "kline_route ?b" "kline_route ?c" by code_simp+
  have sy: "symbol_re (symbol_of upstream_ok ?a)" "symbol_re (symbol_of upstream_ok ?b)"
    "symbol_re (symbol_of upstream_ok ?c)"
    by code_simp+
  have ev: "get_param ?a ''interval'' = Some (lit ''2m'')"
    "get_param ?b ''interval'' = Some (lit ''1M'')"
    "get_param ?c ''interval'' = None"
    by code_simp+
  have ne: "fetch upstream_ok (get_request ''/kline'' [(''interval'', ''1m'')]) []
       \<noteq> fetch upstream_ok (get_request ''/kline'' [(''interval'', ''1M'')]) []"
    by code_simp
  show ?thesis
    using interval_validation [OF kr(1) sy(1), where w = "[]" and i = "lit ''2m''"]
      interval_validation [OF kr(2) sy(2), where w = "[]" and i = "lit ''1M''"]
      interval_validation [OF kr(3) sy(3), where w = "[]"]
    by (simp add: ev ne)
qed

text \<open>
  Claim C6, as stated, fails when an earlier check rejects the request. The range check
  (lines 68 to 70) comes after the checks of the symbol and the interval, so
  \<open>/kline?symbol=btc&startTime=2000&endTime=1000\<close>, in which both times parse and the start
  is after the end, is answered with the Invalid symbol error and not with the range error.
\<close>

theorem range_behind_symbol_counterexample:
  "startTime_of (get_request ''/kline'' [(''symbol'', ''btc''), (''startTime'', ''2000''), (''endTime'', ''1000'')])
     = Some (Fin 2000)
   \<and> endTime_of (get_request ''/kline'' [(''symbol'', ''btc''), (''startTime'', ''2000''), (''endTime'', ''1000'')])
     = Some (Fin 1000)
   \<and> js_gt (Fin 2000) (Fin 1000)
   \<and> fetch upstream_ok
        (get_request ''/kline'' [(''symbol'', ''btc''), (''startTime'', ''2000''), (''endTime'', ''1000'')]) []
       = (InvalidSymbol, [])
   \<and> InvalidSymbol \<noteq> InvalidRange"
  by code_simp

text \<open>
  Claim C6, amended. For every request to \<open>/kline\<close> or \<open>/klines\<close> whose symbol and
  interval pass validation, if \<open>startTime\<close> and \<open>endTime\<close> both parse to numbers and the
  start is greater than the end, the response is the range error with status 400 and nothing
  else happens. For every request at all, if either time is null or the start is at most the
  end, the response is not the range error. (Each time is null or a non-negative integer, so
  these cases are all there are.) The times are those \<open>parseTime\<close> yields, so a value
  that \<open>Number\<close> reads after dropping white space around it, such as a no-break space
  followed by \<open>2000\<close>, takes part in the check with its number.
\<close>

theorem range_validation:
  "(kline_route req \<and> symbol_re (symbol_of P req) \<and> interval_of req \<in> set ALLOWED_INTERVALS
      \<and> startTime_of req = Some (Fin a) \<and> endTime_of req = Some (Fin b) \<and> b < a
      \<longrightarrow> fetch P req w = (InvalidRange, w) \<and> status InvalidRange = 400)
   \<and> (startTime_of req = None \<or> endTime_of req = None
        \<or> (startTime_of req = Some (Fin a) \<and> endTime_of req = Some (Fin b) \<and> a \<le> b)
      \<longrightarrow> fst (fetch P req w) \<noteq> InvalidRange)
   \<and> (startTime_of req = None \<or> (\<exists>n. 0 \<le> n \<and> startTime_of req = Some (Fin (of_int n))))
   \<and> (endTime_of req = None \<or> (\<exists>n. 0 \<le> n \<and> endTime_of req = Some (Fin (of_int n))))"
proof -
  have inv: "fetch P req w = (InvalidRange, w) \<and> status InvalidRange = 400"
    if "kline_route req" "symbol_re (symbol_of P req)" "interval_of req \<in> set ALLOWED_INTERVALS"
      "startTime_of req = Some (Fin a)" "endTime_of req = Some (Fin b)" "b < a"
    using that
    by (simp add: fetch_kline_route klines_cases range_inverted_def js_gt_def error_responses)
  have nr: "\<not> range_inverted (startTime_of req) (endTime_of req)
      \<Longrightarrow> fst (fetch P req w) \<noteq> InvalidRange"
  proof (cases "kline_route req")
    case True
    assume "\<not> range_inverted (startTime_of req) (endTime_of req)"
    with True show ?thesis
      using map_upstream_not_400 [of P "symbol_of P req" "interval_of req" "limit_of req"
          "upstream P (outbound_of P req)"]
      by (auto simp: fetch_kline_route klines_cases error_responses)
  next
    case False
    show ?thesis
    proof (cases "http_method req = lit ''GET''")
      case True
      with False show ?thesis by (auto simp: fetch_GET_other response_defs)
    next
      case False
      then show ?thesis by (auto simp: fetch_def response_defs)
    qed
  qed
  have ok: "fst (fetch P req w) \<noteq> InvalidRange"
    if "startTime_of req = None \<or> endTime_of req = None
        \<or> (startTime_of req = Some (Fin a) \<and> endTime_of req = Some (Fin b) \<and> a \<le> b)"
    using that by (intro nr) (auto simp: range_inverted_def js_gt_def split: option.splits)
  from inv ok show ?thesis
    using parseTime_shape [of "param (get_param req ''startTime'')"]
      parseTime_shape [of "param (get_param req ''endTime'')"]
    unfolding startTime_of_def endTime_of_def by blast
qed

theorem range_validation_witness:
  "fetch upstream_ok (get_request ''/kline'' [(''startTime'', ''2000''), (''endTime'', ''1000'')]) []
     = (InvalidRange, [])
   \<and> status InvalidRange = 400
   \<and> fst (fetch upstream_ok (get_request ''/kline'' [(''startTime'', ''1000''), (''endTime'', ''2000'')]) [])
     \<noteq> InvalidRange
   \<and> fst (fetch upstream_ok (get_request ''/kline'' [(''startTime'', ''2000'')]) []) \<noteq> InvalidRange
   \<and> fetch upstream_ok
       (kline_request [(''startTime'', 0xA0 # lit ''2000''), (''endTime'', lit ''1000'')]) []
     = (InvalidRange, [])"
proof -
  let ?a = "get_request ''/kline'' [(''startTime'', ''2000''), (''endTime'', ''1000'')]"
  let ?b = "get_request ''/kline'' [(''startTime'', ''1000''), (''endTime'', ''2000'')]"
  let ?c = "get_request ''/kline'' [(''startTime'', ''2000'')]"
  let ?d = "kline_request [(''startTime'', 0xA0 # lit ''2000''), (''endTime'', lit ''1000'')]"
  have pre: "kline_route ?a" "symbol_re (symbol_of upstream_ok ?a)"
    "interval_of ?a \<in> set ALLOWED_INTERVALS"
    "kline_route ?d" "symbol_re (symbol_of upstream_ok ?d)"
    "interval_of ?d \<in> set ALLOWED_INTERVALS"
    by code_simp+
  have ev: "startTime_of ?a = Some (Fin 2000)" "endTime_of ?a = Some (Fin 1000)"
    "startTime_of ?b = Some (Fin 1000)" "endTime_of ?b = Some (Fin 2000)"
    "endTime_of ?c = None"
    "startTime_of ?d = Some (Fin 2000)" "endTime_of ?d = Some (Fin 1000)"
    by code_simp+
  show ?thesis
    using range_validation [where req = ?a and P = upstream_ok and w = "[]" and a = 2000 and b = 1000]
      range_validation [where req = ?b and P = upstream_ok and w = "[]" and a = 1000 and b = 2000]
      range_validation [where req = ?c and P = upstream_ok and w = "[]"]
      range_validation [where req = ?d and P = upstream_ok and w = "[]" and a = 2000 and b = 1000]
    by (simp add: pre ev)
qed

subsection \<open>An empty value is an absent one\<close>

lemma map_of_drop:
  "map_of (filter (\<lambda>kv. fst kv \<noteq> n) xs) k = (if k = n then None else map_of xs k)"
  by (induction xs) auto

lemma get_param_drop:
  "get_param (drop_param n req) k = (if k = n then None else get_param req k)"
  by (simp add: get_param_def drop_param_def map_of_drop)

lemma klines_cong:
  assumes "symbol_of P a = symbol_of P b" "interval_of a = interval_of b" "limit_of a = limit_of b"
    "startTime_of a = startTime_of b" "endTime_of a = endTime_of b"
  shows "klines P a w = klines P b w"
  using assms by (simp add: klines_cases outbound_of_def)

lemma kline_route_drop: "kline_route (drop_param n req) = kline_route req"
  by (simp add: kline_route_def drop_param_def)

lemma fetch_drop_param:
  assumes "kline_route req"
    and "symbol_of P (drop_param n req) = symbol_of P req"
    and "interval_of (drop_param n req) = interval_of req"
    and "n \<noteq> ''limit''" "n \<noteq> ''startTime''" "n \<noteq> ''endTime''"
  shows "fetch P (drop_param n req) w = fetch P req w"
proof -
  have "klines P (drop_param n req) w = klines P req w"
    using assms
    by (intro klines_cong) (simp_all add: limit_of_def startTime_of_def endTime_of_def get_param_drop)
  with assms(1) show ?thesis
    by (simp add: fetch_kline_route kline_route_drop)
qed

text \<open>
  Claim C10. For every request to \<open>/kline\<close> or \<open>/klines\<close> in which \<open>symbol\<close> has the
  empty string as its value, the symbol is the default \<open>BTCUSDT\<close>, the response is not the
  Invalid symbol error, and the handler does exactly what it does for the same request with
  the parameter removed; likewise for \<open>interval\<close>, the default \<open>1m\<close> and the Invalid
  interval error.
\<close>

theorem empty_value_is_absent:
  assumes "kline_route req"
  shows "(get_param req ''symbol'' = Some []
            \<longrightarrow> symbol_of P req = lit ''BTCUSDT''
                \<and> fst (fetch P req w) \<noteq> InvalidSymbol
                \<and> fetch P req w = fetch P (drop_param ''symbol'' req) w)
       \<and> (get_param req ''interval'' = Some []
            \<longrightarrow> interval_of req = lit ''1m''
                \<and> fst (fetch P req w) \<noteq> InvalidInterval
                \<and> fetch P req w = fetch P (drop_param ''interval'' req) w)
       \<and> get_param (drop_param ''symbol'' req) ''symbol'' = None
       \<and> get_param (drop_param ''interval'' req) ''interval'' = None"
proof -
  have sym: "symbol_of P req = lit ''BTCUSDT''
                \<and> fst (fetch P req w) \<noteq> InvalidSymbol
                \<and> fetch P req w = fetch P (drop_param ''symbol'' req) w"
    if h: "get_param req ''symbol'' = Some []"
  proof -
    from h have s: "symbol_of P req = lit ''BTCUSDT''"
      by (simp add: symbol_of_def or_default_def default_symbol_ok)
    have s': "symbol_of P (drop_param ''symbol'' req) = lit ''BTCUSDT''"
      by (simp add: symbol_of_def or_default_def default_symbol_ok get_param_drop)
    have i': "interval_of (drop_param ''symbol'' req) = interval_of req"
      by (simp add: interval_of_def get_param_drop)
    have "fst (klines P req w) \<noteq> InvalidSymbol"
      using map_upstream_not_400 [of P "symbol_of P req" "interval_of req" "limit_of req"
          "upstream P (outbound_of P req)"]
      by (auto simp: klines_cases s default_symbol_ok error_responses)
    moreover have "fetch P (drop_param ''symbol'' req) w = fetch P req w"
      using assms s s' i' by (intro fetch_drop_param) simp_all
    ultimately show ?thesis using assms s by (simp add: fetch_kline_route)
  qed
  have int: "interval_of req = lit ''1m''
                \<and> fst (fetch P req w) \<noteq> InvalidInterval
                \<and> fetch P req w = fetch P (drop_param ''interval'' req) w"
    if h: "get_param req ''interval'' = Some []"
  proof -
    from h have s: "interval_of req = lit ''1m''"
      by (simp add: interval_of_def or_default_def DEFAULT_INTERVAL_def)
    have s': "interval_of (drop_param ''interval'' req) = lit ''1m''"
      by (simp add: interval_of_def or_default_def DEFAULT_INTERVAL_def get_param_drop)
    have i': "symbol_of P (drop_param ''interval'' req) = symbol_of P req"
      by (simp add: symbol_of_def get_param_drop)
    have m: "lit ''1m'' \<in> set ALLOWED_INTERVALS"
      using default_interval_ok by (simp add: DEFAULT_INTERVAL_def)
    have "fst (klines P req w) \<noteq> InvalidInterval"
      using map_upstream_not_400 [of P "symbol_of P req" "interval_of req" "limit_of req"
          "upstream P (outbound_of P req)"]
      by (auto simp: klines_cases s m error_responses)
    moreover have "fetch P (drop_param ''interval'' req) w = fetch P req w"
      using assms s s' i' by (intro fetch_drop_param) simp_all
    ultimately show ?thesis using assms s by (simp add: fetch_kline_route)
  qed
  have g: "get_param (drop_param ''symbol'' req) ''symbol'' = None"
    "get_param (drop_param ''interval'' req) ''interval'' = None"
    by (simp_all add: get_param_drop)
  from sym int g show ?thesis by blast
qed

theorem empty_value_is_absent_witness:
  "symbol_of upstream_ok (get_request ''/kline'' [(''symbol'', []), (''interval'', [])]) = lit ''BTCUSDT''
   \<and> interval_of (get_request ''/kline'' [(''symbol'', []), (''interval'', [])]) = lit ''1m''
   \<and> fst (fetch upstream_ok (get_request ''/kline'' [(''symbol'', []), (''interval'', [])]) []) \<noteq> InvalidSymbol
   \<and> fst (fetch upstream_ok (get_request ''/kline'' [(''symbol'', []), (''interval'', [])]) []) \<noteq> InvalidInterval
   \<and> fetch upstream_ok (get_request ''/kline'' [(''symbol'', []), (''interval'', [])]) []
       = fetch upstream_ok (get_request ''/kline'' [(''interval'', [])]) []
   \<and> fetch upstream_ok (get_request ''/kline'' [(''symbol'', []), (''interval'', [])]) []
       = fetch upstream_ok (get_request ''/kline'' [(''symbol'', [])]) []"
proof -
  let ?r = "get_request ''/kline'' [(''symbol'', []), (''interval'', [])]"
  have kr: "kline_route ?r" by code_simp
  have ev: "get_param ?r ''symbol'' = Some []" "get_param ?r ''interval'' = Some []"
    "drop_param ''symbol'' ?r = get_request ''/kline'' [(''interval'', [])]"
    "drop_param ''interval'' ?r = get_request ''/kline'' [(''symbol'', [])]"
    by code_simp+
  show ?thesis
    using empty_value_is_absent [OF kr, where P = upstream_ok and w = "[]"]
    unfolding ev by blast
qed

section \<open>The upstream call\<close>

text \<open>
  Claim C7. The world of the model is the list of outbound calls issued so far. For every
  request, the handler appends exactly one call, the one built from the validated
  parameters, when the request is a GET for \<open>/kline\<close> or \<open>/klines\<close> that passes the three
  checks, and leaves the list unchanged otherwise: for any other method or path, and when
  the response is the Invalid symbol, Invalid interval or range error. A request to
  \<open>/kline\<close> or \<open>/klines\<close> that fails a check gets one of those three responses, so no call
  precedes the report of a validation failure. The checks are those of the code on every
  string: the symbol is tested after the upper-casing of the language, and the times are
  read by \<open>Number\<close>, white space of Unicode included.
\<close>

theorem outbound_calls:
  "snd (fetch P req w)
     = (if kline_route req \<and> validated P req then w @ [outbound_of P req] else w)
   \<and> (fst (fetch P req w) \<in> {InvalidSymbol, InvalidInterval, InvalidRange}
        \<longrightarrow> snd (fetch P req w) = w)
   \<and> (kline_route req \<and> \<not> validated P req
        \<longrightarrow> fst (fetch P req w) \<in> {InvalidSymbol, InvalidInterval, InvalidRange})
   \<and> (\<not> kline_route req \<longrightarrow> snd (fetch P req w) = w)"
proof -
  have calls: "snd (fetch P req w)
      = (if kline_route req \<and> validated P req then w @ [outbound_of P req] else w)"
  proof (cases "kline_route req")
    case True
    then show ?thesis
      by (simp add: fetch_kline_route klines_cases validated_def)
  next
    case False
    show ?thesis
    proof (cases "http_method req = lit ''GET''")
      case True
      with False show ?thesis by (simp add: fetch_GET_other)
    next
      case False
      with \<open>\<not> kline_route req\<close> show ?thesis by (simp add: fetch_def)
    qed
  qed
  have early: "snd (fetch P req w) = w"
    if "fst (fetch P req w) \<in> {InvalidSymbol, InvalidInterval, InvalidRange}"
  proof (cases "kline_route req \<and> validated P req")
    case True
    then have "fst (fetch P req w)
        = map_upstream P (symbol_of P req) (interval_of req) (limit_of req)
            (upstream P (outbound_of P req))"
      by (simp add: fetch_kline_route klines_validated)
    with that map_upstream_not_400 [of P "symbol_of P req" "interval_of req" "limit_of req"
        "upstream P (outbound_of P req)"]
    show ?thesis by (auto simp: error_responses)
  next
    case False
    with calls show ?thesis by simp
  qed
  have fails: "fst (fetch P req w) \<in> {InvalidSymbol, InvalidInterval, InvalidRange}"
    if "kline_route req" "\<not> validated P req"
    using that by (auto simp: fetch_kline_route klines_cases validated_def)
  from calls early fails show ?thesis by simp
qed

theorem outbound_calls_witness:
  "snd (fetch upstream_ok (get_request ''/kline'' [(''symbol'', ''ethusdt'')]) [])
     = [outbound_of upstream_ok (get_request ''/kline'' [(''symbol'', ''ethusdt'')])]
   \<and> snd (fetch upstream_down (get_request ''/kline'' [(''symbol'', ''ethusdt'')]) [])
     = [outbound_of upstream_down (get_request ''/kline'' [(''symbol'', ''ethusdt'')])]
   \<and> snd (fetch upstream_ok (get_request ''/kline'' [(''symbol'', ''eth'')]) []) = []
   \<and> snd (fetch upstream_ok (get_request ''/kline'' [(''interval'', ''7m'')]) []) = []
   \<and> snd (fetch upstream_ok (get_request ''/kline'' [(''startTime'', ''9''), (''endTime'', ''3'')]) []) = []
   \<and> snd (fetch upstream_ok (get_request ''/health'' []) []) = []
   \<and> snd (fetch upstream_ok (get_request ''/other'' [(''symbol'', ''ethusdt'')]) []) = []
   \<and> snd (fetch upstream_ok (kline_request [(''symbol'', lit ''stra'' @ 0xDF # lit ''e'')]) [])
     = [outbound_of upstream_ok (kline_request [(''symbol'', lit ''stra'' @ 0xDF # lit ''e'')])]
   \<and> snd (fetch upstream_ok
            (kline_request [(''startTime'', 0xA0 # lit ''2000''), (''endTime'', lit ''1000'')]) [])
     = []"
proof -
  let ?a = "get_request ''/kline'' [(''symbol'', ''ethusdt'')]"
  let ?b = "get_request ''/kline'' [(''symbol'', ''eth'')]"
  let ?c = "get_request ''/kline'' [(''interval'', ''7m'')]"
  let ?d = "get_request ''/kline'' [(''startTime'', ''9''), (''endTime'', ''3'')]"
  let ?e = "get_request ''/health'' []"
  let ?f = "get_request ''/other'' [(''symbol'', ''ethusdt'')]"
  let ?g = "kline_request [(''symbol'', lit ''stra'' @ 0xDF # lit ''e'')]"
  let ?h = "kline_request [(''startTime'', 0xA0 # lit ''2000''), (''endTime'', lit ''1000'')]"
  have ev: "kline_route ?a" "validated upstream_ok ?a" "validated upstream_down ?a"
    "\<not> validated upstream_ok ?b" "\<not> validated upstream_ok ?c" "\<not> validated upstream_ok ?d"
    "\<not> kline_route ?e" "\<not> kline_route ?f"
    "kline_route ?g" "validated upstream_ok ?g" "\<not> validated upstream_ok ?h"
    by code_simp+
  show ?thesis
    using outbound_calls [of upstream_ok ?a "[]"] outbound_calls [of upstream_down ?a "[]"]
      outbound_calls [of upstream_ok ?b "[]"] outbound_calls [of upstream_ok ?c "[]"]
      outbound_calls [of upstream_ok ?d "[]"] outbound_calls [of upstream_ok ?e "[]"]
      outbound_calls [of upstream_ok ?f "[]"] outbound_calls [of upstream_ok ?g "[]"]
      outbound_calls [of upstream_ok ?h "[]"]
    by (simp add: ev)
qed

text \<open>
  Claim C1. For every request to \<open>/kline\<close> or \<open>/klines\<close> that passes validation, one
  outbound call is issued and the response is determined by its outcome. If the call
  completes (the fetch resolves and the body is read as text) with a status outside
  200 to 299, the response is the Upstream error envelope with status 502, carrying the
  upstream status and the parsed body. If the call does not complete (the fetch rejects,
  or reading the body does), the response is the fetch failure envelope with status 502,
  carrying the message of the error thrown, or its string form when it is not an
  \<open>Error\<close>. If the call completes with a status from 200 to 299, the response has status
  200 and carries the symbol, the interval and the limit of the request (the symbol
  uppercased, the limit clamped), the source tag \<open>binance\<close>, and the parsed body as
  \<open>data\<close>. The parsed body is what \<open>JSON.parse\<close> yields, or \<open>{raw: text}\<close> when it
  throws.
\<close>

theorem upstream_mapping:
  assumes "kline_route req" and "validated P req"
  shows "fetch P req w =
           (map_upstream P (symbol_of P req) (interval_of req) (limit_of req)
              (upstream P (outbound_of P req)), w @ [outbound_of P req])
       \<and> (upstream P (outbound_of P req) = Responds st (Text t) \<and> \<not> ok st
            \<longrightarrow> fst (fetch P req w) = UpstreamError st (safeParseJSON (JSON_parse P) t))
       \<and> (upstream P (outbound_of P req) = FetchRejects e
            \<longrightarrow> fst (fetch P req w) = FetchFailure (error_message e))
       \<and> (upstream P (outbound_of P req) = Responds st (TextRejects e)
            \<longrightarrow> fst (fetch P req w) = FetchFailure (error_message e))
       \<and> (upstream P (outbound_of P req) = Responds st (Text t) \<and> ok st
            \<longrightarrow> fst (fetch P req w)
                = Success (symbol_of P req) (interval_of req) (limit_of req)
                    (safeParseJSON (JSON_parse P) t))
       \<and> (JSON_parse P t = Some j \<longrightarrow> safeParseJSON (JSON_parse P) t = j)
       \<and> (JSON_parse P t = None
            \<longrightarrow> safeParseJSON (JSON_parse P) t = JObj [(lit ''raw'', JStr t)])
       \<and> error_message (ErrorObject m) = m \<and> error_message (OtherValue m) = m
       \<and> (ok st \<longleftrightarrow> 200 \<le> st \<and> st \<le> 299)
       \<and> UpstreamError st d
           = \<lparr>status = 502,
              headers = (''Content-Type'', ''application/json; charset=utf-8'') # corsHeaders,
              body = Some (JObj [(lit ''error'', JStr (lit ''Upstream error'')),
                                 (lit ''status'', JNum (Fin (of_nat st))),
                                 (lit ''details'', d)])\<rparr>
       \<and> FetchFailure m
           = \<lparr>status = 502,
              headers = (''Content-Type'', ''application/json; charset=utf-8'') # corsHeaders,
              body = Some (JObj [(lit ''error'', JStr (lit ''Failed to fetch Binance kline data'')),
                                 (lit ''message'', JStr m)])\<rparr>
       \<and> Success sy iv l d
           = \<lparr>status = 200,
              headers = (''Content-Type'', ''application/json; charset=utf-8'') # corsHeaders,
              body = Some (JObj [(lit ''symbol'', JStr sy), (lit ''interval'', JStr iv),
                                 (lit ''limit'', JNum l), (lit ''source'', JStr (lit ''binance'')),
                                 (lit ''data'', d)])\<rparr>"
proof -
  have f: "fetch P req w =
           (map_upstream P (symbol_of P req) (interval_of req) (limit_of req)
              (upstream P (outbound_of P req)), w @ [outbound_of P req])"
    using assms by (simp add: fetch_kline_route klines_validated)
  show ?thesis
    by (simp add: f map_upstream_def safeParseJSON_def response_defs error_message_def ok_def)
qed

theorem upstream_mapping_witness:
  "fetch upstream_ok (get_request ''/kline'' [(''symbol'', ''btcusdt''), (''interval'', ''1m''), (''limit'', ''10'')]) []
     = (Success (lit ''BTCUSDT'') (lit ''1m'') (Fin 10) (JArr []),
        [outbound_of upstream_ok
           (get_request ''/kline'' [(''symbol'', ''btcusdt''), (''interval'', ''1m''), (''limit'', ''10'')])])
   \<and> fst (fetch upstream_teapot (get_request ''/kline'' [(''symbol'', ''btcusdt''), (''interval'', ''1m''), (''limit'', ''10'')]) [])
     = UpstreamError 418 (JObj [(lit ''raw'', JStr (lit ''teapot''))])
   \<and> fst (fetch upstream_down (get_request ''/kline'' [(''symbol'', ''btcusdt''), (''interval'', ''1m''), (''limit'', ''10'')]) [])
     = FetchFailure (lit ''connect failed'')
   \<and> fst (fetch upstream_cut (get_request ''/kline'' [(''symbol'', ''btcusdt''), (''interval'', ''1m''), (''limit'', ''10'')]) [])
     = FetchFailure (lit ''body stream cut'')
   \<and> fst (fetch upstream_ok
            (kline_request [(''symbol'', lit ''stra'' @ 0xDF # lit ''e''), (''limit'', 0xA0 # lit ''250'')]) [])
     = Success (lit ''STRASSE'') (lit ''1m'') (Fin 250) (JArr [])"
proof -
  let ?r = "get_request ''/kline'' [(''symbol'', ''btcusdt''), (''interval'', ''1m''), (''limit'', ''10'')]"
  let ?s = "kline_request [(''symbol'', lit ''stra'' @ 0xDF # lit ''e''), (''limit'', 0xA0 # lit ''250'')]"
  have kr: "kline_route ?r" by code_simp
  have v: "validated upstream_ok ?r" "validated upstream_teapot ?r" "validated upstream_down ?r"
    "validated upstream_cut ?r"
    by code_simp+
  have ks: "kline_route ?s" by code_simp
  have vs: "validated upstream_ok ?s" by code_simp
  have vals: "symbol_of upstream_ok ?r = lit ''BTCUSDT''" "interval_of ?r = lit ''1m''"
    "limit_of ?r = Fin 10"
    "symbol_of upstream_teapot ?r = lit ''BTCUSDT''" "symbol_of upstream_down ?r = lit ''BTCUSDT''"
    "symbol_of upstream_cut ?r = lit ''BTCUSDT''"
    "symbol_of upstream_ok ?s = lit ''STRASSE''" "interval_of ?s = lit ''1m''"
    "limit_of ?s = Fin 250"
    by code_simp+
  have p: "parse_empty_array (lit ''[]'') = Some (JArr [])"
    "parse_empty_array (lit ''teapot'') = None"
    by (simp_all add: parse_empty_array_def)
  have pl: "upstream upstream_ok = (\<lambda>out. Responds 200 (Text (lit ''[]'')))"
    "upstream upstream_teapot = (\<lambda>out. Responds 418 (Text (lit ''teapot'')))"
    "upstream upstream_down = (\<lambda>out. FetchRejects (ErrorObject (lit ''connect failed'')))"
    "upstream upstream_cut = (\<lambda>out. Responds 200 (TextRejects (OtherValue (lit ''body stream cut''))))"
    "JSON_parse upstream_ok = parse_empty_array" "JSON_parse upstream_teapot = parse_empty_array"
    by (simp_all add: upstream_ok_def upstream_teapot_def upstream_down_def upstream_cut_def)
  show ?thesis
    using upstream_mapping [OF kr v(1), where w = "[]" and st = 200 and t = "lit ''[]''"]
      upstream_mapping [OF kr v(2), where w = "[]" and st = 418 and t = "lit ''teapot''"]
      upstream_mapping [OF kr v(3), where w = "[]" and e = "ErrorObject (lit ''connect failed'')"]
      upstream_mapping [OF kr v(4), where w = "[]" and st = 200
        and e = "OtherValue (lit ''body stream cut'')"]
      upstream_mapping [OF ks vs, where w = "[]" and st = 200 and t = "lit ''[]''"]
    by (simp add: vals p pl ok_def error_message_def safeParseJSON_def map_upstream_def)
qed

end
